theory Spec2Isabelle
  imports Main "HOL-Library.Word"
begin

section \<open>Shared data model (internal/indexer/models.go, go-ethereum types)\<close>

type_synonym byte = "8 word"
type_synonym uint64 = "64 word"

text \<open>\<open>common.Hash\<close> is a 32-byte array and \<open>common.Address\<close> a 20-byte array; both are
  read big-endian, so a hash is a 256-bit word and an address a 160-bit word.\<close>

type_synonym Hash = "256 word"
type_synonym Address = "160 word"

text \<open>An error value: \<open>fmt.Errorf(msg)\<close>, or \<open>fmt.Errorf(msg: %w, err)\<close> wrapping another.\<close>

datatype error = Errorf string | Wrapf string error

text \<open>A Go call either returns its results or unwinds with a run-time panic (an index or a
  slice bound out of range). Nothing in the indexer recovers from a panic.\<close>

datatype 'a outcome = Returns 'a | Panics string

definition obind :: "'a outcome \<Rightarrow> ('a \<Rightarrow> 'b outcome) \<Rightarrow> 'b outcome" where
  "obind r f = (case r of Panics m \<Rightarrow> Panics m | Returns x \<Rightarrow> f x)"

text \<open>\<open>types.Log\<close> of go-ethereum.\<close>

record Log =
  log_Address :: Address
  log_Topics :: "Hash list"
  log_Data :: "byte list"
  log_BlockNumber :: uint64
  log_TxHash :: Hash
  log_TxIndex :: uint64
  log_BlockHash :: Hash
  log_Index :: uint64
  log_Removed :: bool

text \<open>The values an \<open>EventData\<close> map holds (\<open>map[string]interface{}\<close>): the processors store
  addresses and strings. \<open>HexValue a\<close> stands for the string \<open>a.Hex()\<close>: the mixed-case
  spelling of an address takes its letter case from a Keccak-256 digest, so the string is
  kept as the address it spells.\<close>

datatype field_value = AddressValue Address | StringValue string | HexValue Address

type_synonym EventData = "string \<rightharpoonup> field_value"

text \<open>\<open>Event.LogIndex\<close> and \<open>Log.Index\<close> are Go \<open>uint\<close>s, 64 bits wide on the 64-bit platforms
  the indexer runs on.\<close>

record Event =
  event_ID :: uint64
  event_Chain :: string
  event_BlockNumber :: uint64
  event_BlockHash :: string
  event_TransactionHash :: string
  event_LogIndex :: uint64
  event_Address :: Address
  event_EventName :: string
  event_Protocol :: string
  event_Data :: EventData
  event_Timestamp :: nat

record Block =
  block_ID :: uint64
  block_Chain :: string
  block_Number :: uint64
  block_Hash :: string
  block_Timestamp :: nat

subsection \<open>Library functions the processors call\<close>

text \<open>\<open>crypto.Keccak256Hash\<close>, as the table of its values on the nine event signature
  strings the source applies it to; every other argument is outside the table.\<close>

definition Keccak256Hash :: "string \<Rightarrow> Hash" where
  "Keccak256Hash s =
    (if s = ''Swap(address,uint256,uint256,uint256,uint256,address)''
       then 0xd78ad95fa46c994b6551d0da85fc275fe613ce37657fb8d5e3d130840159d822
     else if s = ''Mint(address,uint256,uint256)''
       then 0x4c209b5fc8ad50758f13e2e1088ba56a560dff690a1c6fef26394f4c03821c4f
     else if s = ''Burn(address,uint256,uint256,address)''
       then 0xdccd412f0b1252819cb1fd330b93224ca42612892bb3f4f789976e6d81936496
     else if s = ''Sync(uint112,uint112)''
       then 0x1c411e9a96e071241c2f21f7726b17ae89e3cab4c78be50e062b03a9fffbbad1
     else if s = ''Supply(address,address,address,uint256,uint16)''
       then 0x2b627736bca15cd5381dcf80b0bf11fd197d01a037c52b927a881a10fb73ba61
     else if s = ''Withdraw(address,address,address,uint256)''
       then 0x3115d1449a7b732c986cba18244e897a450f61e1bb8d589cd2e69e6c8924f9f7
     else if s = ''Borrow(address,address,address,uint256,uint8,uint256,uint16)''
       then 0xb3d084820fb1a9decffb176436bd02558d15fac9b0ddfed8c465bc7359d7dce0
     else if s = ''Repay(address,address,address,uint256,bool)''
       then 0xa534c8dbe71f871f9f3530e97a74601fea17b426cae02e1c5aee42c96c784051
     else if s = ''Transfer(address,address,uint256)''
       then 0xddf252ad1be2c89b69c2b068fc378daa952ba7f163c4a11628f55a4df523b3ef
     else 0)"

text \<open>\<open>h.Bytes()\<close>: the 32 bytes of a hash, most significant first.\<close>

definition Hash_Bytes :: "Hash \<Rightarrow> byte list" where
  "Hash_Bytes h = map (\<lambda>i. ucast (drop_bit (8 * (31 - i)) h)) [0..<32]"

text \<open>\<open>new(big.Int).SetBytes(b)\<close>: the bytes read as a big-endian unsigned integer.\<close>

definition SetBytes :: "byte list \<Rightarrow> nat" where
  "SetBytes b = foldl (\<lambda>acc x. acc * 256 + unat x) 0 b"

text \<open>\<open>common.BytesToAddress(b)\<close>: the last 20 bytes when there are more, left-padded with
  zeros when there are fewer.\<close>

definition BytesToAddress :: "byte list \<Rightarrow> Address" where
  "BytesToAddress b = of_nat (SetBytes (if length b > 20 then drop (length b - 20) b else b))"

text \<open>\<open>(*big.Int).String()\<close>: the base-10 digits, most significant first.\<close>

definition digit10 :: "nat \<Rightarrow> char" where
  "digit10 d = char_of (48 + d)"

fun BigInt_String :: "nat \<Rightarrow> string" where
  "BigInt_String n = (if n < 10 then [digit10 n] else BigInt_String (n div 10) @ [digit10 (n mod 10)])"

declare BigInt_String.simps [simp del]

text \<open>The number that a string of decimal digits spells, most significant digit first: the
  reading of what \<open>String\<close> prints.\<close>

definition decimalValue :: "string \<Rightarrow> nat" where
  "decimalValue s = foldl (\<lambda>acc c. 10 * acc + (of_char c - 48)) 0 s"

text \<open>\<open>h.Hex()\<close> of a hash: \<open>0x\<close> and 64 lower-case hexadecimal digits.\<close>

definition hexdigit :: "nat \<Rightarrow> char" where
  "hexdigit d = (if d < 10 then char_of (48 + d) else char_of (87 + d))"

definition Hash_Hex :: "Hash \<Rightarrow> string" where
  "Hash_Hex h = ''0x'' @ concat (map (\<lambda>b. [hexdigit (unat b div 16), hexdigit (unat b mod 16)]) (Hash_Bytes h))"

text \<open>A slice expression \<open>b[lo:hi]\<close> panics when \<open>hi\<close> exceeds the capacity of \<open>b\<close>. The payload
  of a log is modelled with capacity equal to its length (a nil, literal or exactly
  allocated slice). An index expression \<open>ts[i]\<close> panics when \<open>i\<close> is not below the length.\<close>

definition slice :: "byte list \<Rightarrow> nat \<Rightarrow> nat \<Rightarrow> byte list outcome" where
  "slice b lo hi =
    (if hi \<le> length b \<and> lo \<le> hi then Returns (take (hi - lo) (drop lo b))
     else Panics ''slice bounds out of range'')"

definition index :: "'a list \<Rightarrow> nat \<Rightarrow> 'a outcome" where
  "index ts i = (if i < length ts then Returns (ts ! i) else Panics ''index out of range'')"

text \<open>\<open>common.BytesToAddress(log.Topics[i].Bytes())\<close>.\<close>

definition topicAddress :: "Log \<Rightarrow> nat \<Rightarrow> Address outcome" where
  "topicAddress log i = obind (index (log_Topics log) i) (\<lambda>t. Returns (BytesToAddress (Hash_Bytes t)))"

text \<open>\<open>new(big.Int).SetBytes(log.Data[lo:hi])\<close>.\<close>

definition dataWord :: "Log \<Rightarrow> nat \<Rightarrow> nat \<Rightarrow> nat outcome" where
  "dataWord log lo hi = obind (slice (log_Data log) lo hi) (\<lambda>b. Returns (SetBytes b))"

section \<open>Protocol processors (internal/indexer/processors.go)\<close>

text \<open>The result of \<open>Process\<close>: the pair \<open>(*Event, error)\<close>, either of which may be nil.\<close>

type_synonym process_result = "(Event option \<times> error option) outcome"

text \<open>The event literal with which the Uniswap and Aave processors start.\<close>

definition newEvent :: "string \<Rightarrow> Log \<Rightarrow> Event" where
  "newEvent protocol log =
    \<lparr> event_ID = 0, event_Chain = '''',
      event_BlockNumber = log_BlockNumber log,
      event_BlockHash = Hash_Hex (log_BlockHash log),
      event_TransactionHash = Hash_Hex (log_TxHash log),
      event_LogIndex = log_Index log,
      event_Address = log_Address log,
      event_EventName = '''',
      event_Protocol = protocol,
      event_Data = Map.empty,
      event_Timestamp = 0 \<rparr>"

subsection \<open>UniswapV2Processor\<close>

record UniswapV2Processor =
  uni_protocolName :: string
  uni_factoryAddr :: Address

definition NewUniswapV2Processor :: "Address \<Rightarrow> UniswapV2Processor" where
  "NewUniswapV2Processor factory = \<lparr> uni_protocolName = ''uniswap-v2'', uni_factoryAddr = factory \<rparr>"

definition UniswapV2_GetEventSignatures :: "UniswapV2Processor \<Rightarrow> Hash list" where
  "UniswapV2_GetEventSignatures p =
    [ Keccak256Hash ''Swap(address,uint256,uint256,uint256,uint256,address)'',
      Keccak256Hash ''Mint(address,uint256,uint256)'',
      Keccak256Hash ''Burn(address,uint256,uint256,address)'',
      Keccak256Hash ''Sync(uint112,uint112)'' ]"

definition processSwap :: "UniswapV2Processor \<Rightarrow> Event \<Rightarrow> Log \<Rightarrow> process_result" where
  "processSwap p event log =
    (let event = event\<lparr>event_EventName := ''Swap''\<rparr> in
     if length (log_Data log) < 128 then Returns (None, Some (Errorf ''invalid swap data''))
     else
       obind (dataWord log 0 32) (\<lambda>amount0In.
       obind (dataWord log 32 64) (\<lambda>amount1In.
       obind (dataWord log 64 96) (\<lambda>amount0Out.
       obind (dataWord log 96 128) (\<lambda>amount1Out.
       obind (topicAddress log 1) (\<lambda>sender.
       obind (topicAddress log 2) (\<lambda>to.
         Returns (Some (event\<lparr>event_Data := map_of
           [ (''sender'', AddressValue sender),
             (''to'', AddressValue to),
             (''amount0_in'', StringValue (BigInt_String amount0In)),
             (''amount1_in'', StringValue (BigInt_String amount1In)),
             (''amount0_out'', StringValue (BigInt_String amount0Out)),
             (''amount1_out'', StringValue (BigInt_String amount1Out)) ]\<rparr>), None))))))))"

definition processMint :: "UniswapV2Processor \<Rightarrow> Event \<Rightarrow> Log \<Rightarrow> process_result" where
  "processMint p event log =
    (let event = event\<lparr>event_EventName := ''Mint''\<rparr> in
     if length (log_Data log) < 64 then Returns (None, Some (Errorf ''invalid mint data''))
     else
       obind (dataWord log 0 32) (\<lambda>amount0.
       obind (dataWord log 32 64) (\<lambda>amount1.
       obind (topicAddress log 1) (\<lambda>sender.
         Returns (Some (event\<lparr>event_Data := map_of
           [ (''sender'', AddressValue sender),
             (''amount0'', StringValue (BigInt_String amount0)),
             (''amount1'', StringValue (BigInt_String amount1)) ]\<rparr>), None)))))"

definition processBurn :: "UniswapV2Processor \<Rightarrow> Event \<Rightarrow> Log \<Rightarrow> process_result" where
  "processBurn p event log =
    (let event = event\<lparr>event_EventName := ''Burn''\<rparr> in
     if length (log_Data log) < 64 then Returns (None, Some (Errorf ''invalid burn data''))
     else
       obind (dataWord log 0 32) (\<lambda>amount0.
       obind (dataWord log 32 64) (\<lambda>amount1.
       obind (topicAddress log 1) (\<lambda>sender.
       obind (topicAddress log 2) (\<lambda>to.
         Returns (Some (event\<lparr>event_Data := map_of
           [ (''sender'', AddressValue sender),
             (''to'', AddressValue to),
             (''amount0'', StringValue (BigInt_String amount0)),
             (''amount1'', StringValue (BigInt_String amount1)) ]\<rparr>), None))))))"

definition processSync :: "UniswapV2Processor \<Rightarrow> Event \<Rightarrow> Log \<Rightarrow> process_result" where
  "processSync p event log =
    (let event = event\<lparr>event_EventName := ''Sync''\<rparr> in
     if length (log_Data log) < 64 then Returns (None, Some (Errorf ''invalid sync data''))
     else
       obind (dataWord log 0 32) (\<lambda>reserve0.
       obind (dataWord log 32 64) (\<lambda>reserve1.
         Returns (Some (event\<lparr>event_Data := map_of
           [ (''reserve0'', StringValue (BigInt_String reserve0)),
             (''reserve1'', StringValue (BigInt_String reserve1)) ]\<rparr>), None))))"

definition UniswapV2_Process :: "UniswapV2Processor \<Rightarrow> Log \<Rightarrow> process_result" where
  "UniswapV2_Process p log =
    (if length (log_Topics log) = 0 then Returns (None, Some (Errorf ''no topics in log''))
     else
       let event = newEvent (uni_protocolName p) log; t0 = log_Topics log ! 0 in
       if t0 = Keccak256Hash ''Swap(address,uint256,uint256,uint256,uint256,address)''
         then processSwap p event log
       else if t0 = Keccak256Hash ''Mint(address,uint256,uint256)''
         then processMint p event log
       else if t0 = Keccak256Hash ''Burn(address,uint256,uint256,address)''
         then processBurn p event log
       else if t0 = Keccak256Hash ''Sync(uint112,uint112)''
         then processSync p event log
       else Returns (None, Some (Errorf ''unknown event signature'')))"

subsection \<open>AaveV3Processor\<close>

record AaveV3Processor =
  aave_protocolName :: string
  aave_poolAddr :: Address

definition NewAaveV3Processor :: "Address \<Rightarrow> AaveV3Processor" where
  "NewAaveV3Processor pool = \<lparr> aave_protocolName = ''aave-v3'', aave_poolAddr = pool \<rparr>"

definition AaveV3_GetEventSignatures :: "AaveV3Processor \<Rightarrow> Hash list" where
  "AaveV3_GetEventSignatures p =
    [ Keccak256Hash ''Supply(address,address,address,uint256,uint16)'',
      Keccak256Hash ''Withdraw(address,address,address,uint256)'',
      Keccak256Hash ''Borrow(address,address,address,uint256,uint8,uint256,uint16)'',
      Keccak256Hash ''Repay(address,address,address,uint256,bool)'' ]"

text \<open>The four Aave decoders test the number of topics and then slice \<open>log.Data[0:32]\<close>
  with no test on the length of the payload.\<close>

definition processSupply :: "AaveV3Processor \<Rightarrow> Event \<Rightarrow> Log \<Rightarrow> process_result" where
  "processSupply p event log =
    (let event = event\<lparr>event_EventName := ''Supply''\<rparr> in
     if length (log_Topics log) < 4 then Returns (None, Some (Errorf ''invalid supply topics''))
     else
       obind (dataWord log 0 32) (\<lambda>amount.
       obind (topicAddress log 1) (\<lambda>v_reserve.
       obind (topicAddress log 2) (\<lambda>v_user.
       obind (topicAddress log 3) (\<lambda>v_on_behalf.
         Returns (Some (event\<lparr>event_Data := map_of
           [ (''reserve'', AddressValue v_reserve),
             (''user'', AddressValue v_user),
             (''on_behalf'', AddressValue v_on_behalf),
             (''amount'', StringValue (BigInt_String amount)) ]\<rparr>), None))))))"

definition processWithdraw :: "AaveV3Processor \<Rightarrow> Event \<Rightarrow> Log \<Rightarrow> process_result" where
  "processWithdraw p event log =
    (let event = event\<lparr>event_EventName := ''Withdraw''\<rparr> in
     if length (log_Topics log) < 4 then Returns (None, Some (Errorf ''invalid withdraw topics''))
     else
       obind (dataWord log 0 32) (\<lambda>amount.
       obind (topicAddress log 1) (\<lambda>v_reserve.
       obind (topicAddress log 2) (\<lambda>v_user.
       obind (topicAddress log 3) (\<lambda>v_to.
         Returns (Some (event\<lparr>event_Data := map_of
           [ (''reserve'', AddressValue v_reserve),
             (''user'', AddressValue v_user),
             (''to'', AddressValue v_to),
             (''amount'', StringValue (BigInt_String amount)) ]\<rparr>), None))))))"

definition processBorrow :: "AaveV3Processor \<Rightarrow> Event \<Rightarrow> Log \<Rightarrow> process_result" where
  "processBorrow p event log =
    (let event = event\<lparr>event_EventName := ''Borrow''\<rparr> in
     if length (log_Topics log) < 4 then Returns (None, Some (Errorf ''invalid borrow topics''))
     else
       obind (dataWord log 0 32) (\<lambda>amount.
       obind (topicAddress log 1) (\<lambda>v_reserve.
       obind (topicAddress log 2) (\<lambda>v_on_behalf.
       obind (topicAddress log 3) (\<lambda>v_user.
         Returns (Some (event\<lparr>event_Data := map_of
           [ (''reserve'', AddressValue v_reserve),
             (''on_behalf'', AddressValue v_on_behalf),
             (''user'', AddressValue v_user),
             (''amount'', StringValue (BigInt_String amount)) ]\<rparr>), None))))))"

definition processRepay :: "AaveV3Processor \<Rightarrow> Event \<Rightarrow> Log \<Rightarrow> process_result" where
  "processRepay p event log =
    (let event = event\<lparr>event_EventName := ''Repay''\<rparr> in
     if length (log_Topics log) < 4 then Returns (None, Some (Errorf ''invalid repay topics''))
     else
       obind (dataWord log 0 32) (\<lambda>amount.
       obind (topicAddress log 1) (\<lambda>v_reserve.
       obind (topicAddress log 2) (\<lambda>v_user.
       obind (topicAddress log 3) (\<lambda>v_repayer.
         Returns (Some (event\<lparr>event_Data := map_of
           [ (''reserve'', AddressValue v_reserve),
             (''user'', AddressValue v_user),
             (''repayer'', AddressValue v_repayer),
             (''amount'', StringValue (BigInt_String amount)) ]\<rparr>), None))))))"

definition AaveV3_Process :: "AaveV3Processor \<Rightarrow> Log \<Rightarrow> process_result" where
  "AaveV3_Process p log =
    (if length (log_Topics log) = 0 then Returns (None, Some (Errorf ''no topics in log''))
     else
       let event = newEvent (aave_protocolName p) log; t0 = log_Topics log ! 0 in
       if t0 = Keccak256Hash ''Supply(address,address,address,uint256,uint16)''
         then processSupply p event log
       else if t0 = Keccak256Hash ''Withdraw(address,address,address,uint256)''
         then processWithdraw p event log
       else if t0 = Keccak256Hash ''Borrow(address,address,address,uint256,uint8,uint256,uint16)''
         then processBorrow p event log
       else if t0 = Keccak256Hash ''Repay(address,address,address,uint256,bool)''
         then processRepay p event log
       else Returns (None, Some (Errorf ''unknown event signature'')))"

subsection \<open>GenericERC20Processor\<close>

record GenericERC20Processor =
  erc_protocolName :: string
  erc_tokens :: "Address list"

definition NewGenericERC20Processor :: "string \<Rightarrow> Address list \<Rightarrow> GenericERC20Processor" where
  "NewGenericERC20Processor protocolName tokens =
    \<lparr> erc_protocolName = protocolName, erc_tokens = tokens \<rparr>"

definition GenericERC20_GetEventSignatures :: "GenericERC20Processor \<Rightarrow> Hash list" where
  "GenericERC20_GetEventSignatures p = [ Keccak256Hash ''Transfer(address,address,uint256)'' ]"

text \<open>The loop that looks the emitting address up in the tracked tokens.\<close>

fun isTracked :: "Address \<Rightarrow> Address list \<Rightarrow> bool" where
  "isTracked a [] = False"
| "isTracked a (token # tokens) = (if a = token then True else isTracked a tokens)"

definition GenericERC20_Process :: "GenericERC20Processor \<Rightarrow> Log \<Rightarrow> process_result" where
  "GenericERC20_Process p log =
    (if \<not> isTracked (log_Address log) (erc_tokens p) then Returns (None, None)
     else if length (log_Topics log) < 3 then Returns (None, Some (Errorf ''invalid transfer topics''))
     else
       let amount = SetBytes (log_Data log) in
       obind (topicAddress log 1) (\<lambda>from.
       obind (topicAddress log 2) (\<lambda>to.
         Returns (Some
           \<lparr> event_ID = 0, event_Chain = '''',
             event_BlockNumber = log_BlockNumber log,
             event_BlockHash = Hash_Hex (log_BlockHash log),
             event_TransactionHash = Hash_Hex (log_TxHash log),
             event_LogIndex = log_Index log,
             event_Address = log_Address log,
             event_EventName = ''Transfer'',
             event_Protocol = erc_protocolName p,
             event_Data = map_of
               [ (''from'', AddressValue from),
                 (''to'', AddressValue to),
                 (''amount'', StringValue (BigInt_String amount)),
                 (''token'', HexValue (log_Address log)) ],
             event_Timestamp = 0 \<rparr>, None))))"

section \<open>The indexer (internal/indexer/indexer.go)\<close>

text \<open>The interface \<open>EventProcessor\<close>: a value with the three methods.\<close>

record EventProcessor =
  Process :: "Log \<Rightarrow> process_result"
  GetEventSignatures :: "Hash list"
  GetProtocolName :: string

definition UniswapV2 :: "UniswapV2Processor \<Rightarrow> EventProcessor" where
  "UniswapV2 p =
    \<lparr> Process = UniswapV2_Process p,
      GetEventSignatures = UniswapV2_GetEventSignatures p,
      GetProtocolName = uni_protocolName p \<rparr>"

definition AaveV3 :: "AaveV3Processor \<Rightarrow> EventProcessor" where
  "AaveV3 p =
    \<lparr> Process = AaveV3_Process p,
      GetEventSignatures = AaveV3_GetEventSignatures p,
      GetProtocolName = aave_protocolName p \<rparr>"

definition GenericERC20 :: "GenericERC20Processor \<Rightarrow> EventProcessor" where
  "GenericERC20 p =
    \<lparr> Process = GenericERC20_Process p,
      GetEventSignatures = GenericERC20_GetEventSignatures p,
      GetProtocolName = erc_protocolName p \<rparr>"

record Config =
  BatchSize :: uint64
  WorkerCount :: int
  BlockConfirmations :: uint64
  RetryAttempts :: int
  RetryDelay :: int
  StartFromBlock :: uint64

text \<open>The configuration that \<open>cmd/indexer/main.go\<close> passes to \<open>NewIndexer\<close>.\<close>

definition mainConfig :: Config where
  "mainConfig =
    \<lparr> BatchSize = 10, WorkerCount = 1, BlockConfirmations = 12,
      RetryAttempts = 3, RetryDelay = 5000000000, StartFromBlock = 100 \<rparr>"

text \<open>The interface \<open>Storage\<close> over a store of type \<open>'st\<close>: a write returns its error
  and the store it leaves. \<open>GetEvents\<close>, which the indexer never calls, is left out of
  the interface.\<close>

record 'st Storage =
  SaveBlock :: "Block \<Rightarrow> 'st \<Rightarrow> error option \<times> 'st"
  GetLastIndexedBlock :: "string \<Rightarrow> 'st \<Rightarrow> uint64 \<times> error option"
  SaveEvents :: "Event list \<Rightarrow> 'st \<Rightarrow> error option \<times> 'st"

record EventFilter =
  FromBlock :: "int option"
  ToBlock :: "int option"
  Addresses :: "Address list"
  Topics :: "Hash list list"

text \<open>What a \<open>blockchain.Client\<close> answers during one call of the indexer.\<close>

record Client =
  GetBlockNumber :: "uint64 \<times> error option"
  GetLogs :: "EventFilter \<Rightarrow> Log list \<times> error option"
  IsWebSocketAvailable :: bool

text \<open>The indexer keeps its processors in a map keyed by protocol name.\<close>

record Indexer =
  processors :: "string \<rightharpoonup> EventProcessor"
  config :: Config

definition NewIndexer :: "Config \<Rightarrow> Indexer" where
  "NewIndexer cfg = \<lparr> processors = Map.empty, config = cfg \<rparr>"

definition RegisterProcessor :: "Indexer \<Rightarrow> EventProcessor \<Rightarrow> Indexer" where
  "RegisterProcessor idx processor =
    (let name = GetProtocolName processor in
     idx\<lparr>processors := (processors idx)(name \<mapsto> processor)\<rparr>)"

text \<open>A \<open>range\<close> statement over a Go map visits the keys in an order the language leaves
  unspecified and that may differ from one loop to the next. The order \<open>ks\<close> is therefore an
  input of every function that ranges over a map; \<open>range_order m ks\<close> says that \<open>ks\<close> is a
  possible order for the map \<open>m\<close>.\<close>

definition range_order :: "('k \<rightharpoonup> 'v) \<Rightarrow> 'k list \<Rightarrow> bool" where
  "range_order m ks \<longleftrightarrow> distinct ks \<and> set ks = dom m"

definition range_values :: "('k \<rightharpoonup> 'v) \<Rightarrow> 'k list \<Rightarrow> 'v list" where
  "range_values m ks = List.map_filter m ks"

definition range_keys :: "('k \<rightharpoonup> 'v) \<Rightarrow> 'k list \<Rightarrow> 'k list" where
  "range_keys m ks = filter (\<lambda>k. m k \<noteq> None) ks"

subsection \<open>getStartBlock\<close>


subsection \<open>indexHistoricalEvents\<close>

record blockRange =
  br_from :: uint64
  br_to :: uint64

text \<open>The block up to which a run scans: the confirmations are subtracted from the head
  only when the head exceeds them.\<close>

definition effectiveEnd :: "uint64 \<Rightarrow> uint64 \<Rightarrow> uint64" where
  "effectiveEnd currentBlock confirmations =
    (if currentBlock > confirmations then currentBlock - confirmations else currentBlock)"

definition windowEnd :: "uint64 \<Rightarrow> uint64 \<Rightarrow> uint64 \<Rightarrow> uint64" where
  "windowEnd batchSize currentBlock fromBlock =
    (let toBlock = fromBlock + batchSize - 1 in
     if toBlock > currentBlock then currentBlock else toBlock)"

text \<open>What the \<open>select\<close> of one pass of the loop comes to: the send completes (the buffer
  has room or a worker receives the window), the branch of the cancelled context is taken,
  or neither ever becomes ready and the loop blocks for ever. Which of them happens depends
  on the workers and on the caller, so it is an input \<open>sel\<close> of the model: \<open>sel k\<close> is what
  the environment offers at the pass that follows \<open>k\<close> sends.\<close>

datatype select_result = Sent | Cancelled | Blocked

text \<open>The channel has a buffer of \<open>WorkerCount\<close> windows and \<open>WorkerCount\<close> workers receive
  from it. With no worker and no buffer a send never completes; while fewer windows have
  been sent than the buffer holds, a send is always ready.\<close>

definition selectSend :: "int \<Rightarrow> nat \<Rightarrow> select_result \<Rightarrow> select_result" where
  "selectSend workerCount k r =
    (if r = Sent \<and> workerCount = 0 then Blocked
     else if r = Blocked \<and> int k < workerCount then Sent
     else r)"

text \<open>The loop that sends the windows to the workers. The loop need not end (batch size 0,
  or a send that blocks for ever), so its result is an option: \<open>None\<close> is a loop that never
  returns.\<close>

partial_function (option) sendWork ::
  "(nat \<Rightarrow> select_result) \<Rightarrow> int \<Rightarrow> uint64 \<Rightarrow> uint64 \<Rightarrow> uint64 \<Rightarrow> blockRange list
     \<Rightarrow> (blockRange list \<times> error option) option"
where
  "sendWork sel workerCount batchSize currentBlock fromBlock sent =
    (if fromBlock < currentBlock then
       (case selectSend workerCount (length sent) (sel (length sent)) of
          Sent \<Rightarrow>
            sendWork sel workerCount batchSize currentBlock
              (windowEnd batchSize currentBlock fromBlock + 1)
              (sent @ [\<lparr> br_from = fromBlock, br_to = windowEnd batchSize currentBlock fromBlock \<rparr>])
        | Cancelled \<Rightarrow> Some (sent, Some (Errorf ''context canceled''))
        | Blocked \<Rightarrow> None)
     else Some (sent, None))"

text \<open>\<open>indexHistoricalEvents\<close>: the windows it sends, in order, and the error it returns.
  \<open>make(chan blockRange, WorkerCount)\<close> panics when the count is negative or larger than
  the runtime allows; \<open>chanLimit\<close> is the largest count for which the runtime of the
  platform makes the channel.\<close>

definition indexHistoricalEvents ::
  "Indexer \<Rightarrow> Client \<Rightarrow> int \<Rightarrow> (nat \<Rightarrow> select_result) \<Rightarrow> uint64
     \<Rightarrow> (blockRange list \<times> error option) outcome option" where
  "indexHistoricalEvents idx client chanLimit sel fromBlock =
    (let (currentBlock, err) = GetBlockNumber client in
     if err \<noteq> None then Some (Returns ([], err))
     else
       let currentBlock = effectiveEnd currentBlock (BlockConfirmations (config idx));
           batchSize = BatchSize (config idx)
       in if WorkerCount (config idx) < 0 \<or> chanLimit < WorkerCount (config idx)
          then Some (Panics ''makechan: size out of range'')
          else map_option Returns
                 (sendWork sel (WorkerCount (config idx)) batchSize currentBlock fromBlock []))"

text \<open>A list of windows tiles the blocks from \<open>s\<close> up to, not including, \<open>n\<close>: the first
  window starts at \<open>s\<close>, no window is empty, each window starts one block after the end of the
  one before, and the last ends at \<open>n - 1\<close>. Such windows are contiguous, do not overlap and
  cover every block from \<open>s\<close> through \<open>n - 1\<close>.\<close>

fun tiles :: "uint64 \<Rightarrow> blockRange list \<Rightarrow> uint64 \<Rightarrow> bool" where
  "tiles s [] n \<longleftrightarrow> s = n"
| "tiles s (w # ws) n \<longleftrightarrow>
     br_from w = s \<and> br_from w \<le> br_to w \<and> br_to w \<noteq> - 1 \<and> tiles (br_to w + 1) ws n"

subsection \<open>processLog\<close>

text \<open>The inner loop over the signatures of one processor: \<open>Some r\<close> when \<open>processLog\<close>
  returns \<open>r\<close> from inside the loop, \<open>None\<close> when the loop ends and the next processor is tried.\<close>

fun processLog_signatures :: "EventProcessor \<Rightarrow> string \<Rightarrow> Log \<Rightarrow> Hash list \<Rightarrow> Event option option outcome" where
  "processLog_signatures processor chain log [] = Returns None"
| "processLog_signatures processor chain log (sig # signatures) =
    (if length (log_Topics log) > 0 \<and> log_Topics log ! 0 = sig then
       obind (Process processor log) (\<lambda>(event, err).
         if err \<noteq> None then Returns (Some None)
         else case event of
           Some e \<Rightarrow> Returns (Some (Some (e\<lparr>event_Chain := chain\<rparr>)))
         | None \<Rightarrow> processLog_signatures processor chain log signatures)
     else processLog_signatures processor chain log signatures)"

fun processLog_processors :: "string \<Rightarrow> Log \<Rightarrow> EventProcessor list \<Rightarrow> Event option outcome" where
  "processLog_processors chain log [] = Returns None"
| "processLog_processors chain log (processor # rest) =
    obind (processLog_signatures processor chain log (GetEventSignatures processor)) (\<lambda>r.
      case r of Some event \<Rightarrow> Returns event
              | None \<Rightarrow> processLog_processors chain log rest)"

text \<open>\<open>processLog\<close>, with the order \<open>ks\<close> in which its \<open>range\<close> visits the processors.\<close>

definition processLog :: "Indexer \<Rightarrow> string list \<Rightarrow> string \<Rightarrow> Log \<Rightarrow> Event option outcome" where
  "processLog idx ks chain log = processLog_processors chain log (range_values (processors idx) ks)"

subsection \<open>getAllEventSignatures and processBatch\<close>

text \<open>\<open>getAllEventSignatures\<close> ranges over the processors (order \<open>ks\<close>) to fill a set of
  hashes, then over that set (order \<open>hs\<close>) to build the slice it returns.\<close>

definition getAllEventSignatures :: "Indexer \<Rightarrow> string list \<Rightarrow> Hash list \<Rightarrow> Hash list" where
  "getAllEventSignatures idx ks hs =
    (let sigMap = foldl (\<lambda>m processor. foldl (\<lambda>m sig. m(sig \<mapsto> True)) m (GetEventSignatures processor))
                    Map.empty (range_values (processors idx) ks)
     in range_keys sigMap hs)"

text \<open>The orders of the \<open>range\<close> statements that one call of \<open>processBatch\<close> runs.\<close>

record RangeOrders =
  sigProcessors :: "string list"
  sigKeys :: "Hash list"
  logProcessors :: "nat \<Rightarrow> string list"

text \<open>The loop of \<open>processBatch\<close> over the fetched logs; \<open>i\<close> counts the logs already seen.\<close>

fun processLogs :: "Indexer \<Rightarrow> (nat \<Rightarrow> string list) \<Rightarrow> string \<Rightarrow> nat \<Rightarrow> Log list \<Rightarrow> Event list \<Rightarrow> Event list outcome" where
  "processLogs idx orders chain i [] events = Returns events"
| "processLogs idx orders chain i (log # logs) events =
    obind (processLog idx (orders i) chain log) (\<lambda>event.
      processLogs idx orders chain (Suc i) logs
        (case event of Some e \<Rightarrow> events @ [e] | None \<Rightarrow> events))"

text \<open>The calls a run makes on the storage, in order.\<close>

datatype storage_call = CallSaveEvents "Event list" | CallSaveBlock Block

text \<open>\<open>processBatch\<close> returns its error, the store it leaves and the storage calls it made;
  \<open>now\<close> is the reading of the clock for the block marker.\<close>

definition processBatch ::
  "Indexer \<Rightarrow> 'st Storage \<Rightarrow> Client \<Rightarrow> RangeOrders \<Rightarrow> nat \<Rightarrow> string \<Rightarrow> uint64 \<Rightarrow> uint64 \<Rightarrow> 'st
     \<Rightarrow> (error option \<times> 'st \<times> storage_call list) outcome" where
  "processBatch idx storage client orders now chain from to st =
    (let signatures = getAllEventSignatures idx (sigProcessors orders) (sigKeys orders) in
     if length signatures = 0 then Returns (None, st, [])
     else
       let filter = \<lparr> FromBlock = Some (sint from), ToBlock = Some (sint to),
                      Addresses = [], Topics = [signatures] \<rparr>;
           (logs, err) = GetLogs client filter
       in case err of
         Some e \<Rightarrow> Returns (Some (Wrapf ''failed to get logs'' e), st, [])
       | None \<Rightarrow>
           obind (processLogs idx (logProcessors orders) chain 0 logs []) (\<lambda>events.
             let (err, st1, calls) =
                   (if length events > 0
                    then (let (e, s) = SaveEvents storage events st in (e, s, [CallSaveEvents events]))
                    else (None, st, []))
             in case err of
               Some e \<Rightarrow> Returns (Some (Wrapf ''failed to save events'' e), st1, calls)
             | None \<Rightarrow>
                 let block = \<lparr> block_ID = 0, block_Chain = chain, block_Number = to,
                               block_Hash = '''', block_Timestamp = now \<rparr>;
                     (err, st2) = SaveBlock storage block st1
                 in case err of
                   Some e \<Rightarrow> Returns (Some (Wrapf ''failed to save block'' e), st2, calls @ [CallSaveBlock block])
                 | None \<Rightarrow> Returns (None, st2, calls @ [CallSaveBlock block])))"

section \<open>The stores (internal/indexer/storage.go)\<close>

subsection \<open>MemoryStorage\<close>

record MemoryStorage =
  mem_blocks :: "string \<rightharpoonup> (uint64 \<rightharpoonup> Block)"
  mem_events :: "string \<rightharpoonup> Event list"
  mem_lastBlocks :: "string \<rightharpoonup> uint64"

definition NewMemoryStorage :: MemoryStorage where
  "NewMemoryStorage = \<lparr> mem_blocks = Map.empty, mem_events = Map.empty, mem_lastBlocks = Map.empty \<rparr>"

text \<open>Reading a Go map at a missing key gives the zero value of the element type.\<close>

definition blocksAt :: "MemoryStorage \<Rightarrow> string \<Rightarrow> (uint64 \<rightharpoonup> Block)" where
  "blocksAt s chain = (case mem_blocks s chain of None \<Rightarrow> Map.empty | Some m \<Rightarrow> m)"

definition eventsAt :: "MemoryStorage \<Rightarrow> string \<Rightarrow> Event list" where
  "eventsAt s chain = (case mem_events s chain of None \<Rightarrow> [] | Some es \<Rightarrow> es)"

definition lastBlocksAt :: "MemoryStorage \<Rightarrow> string \<Rightarrow> uint64" where
  "lastBlocksAt s chain = (case mem_lastBlocks s chain of None \<Rightarrow> 0 | Some n \<Rightarrow> n)"

definition MemoryStorage_SaveBlock :: "Block \<Rightarrow> MemoryStorage \<Rightarrow> error option \<times> MemoryStorage" where
  "MemoryStorage_SaveBlock block s =
    (let s1 = s\<lparr>mem_blocks := (mem_blocks s)
                 (block_Chain block \<mapsto> (blocksAt s (block_Chain block))(block_Number block \<mapsto> block))\<rparr>;
         s2 = (if block_Number block > lastBlocksAt s1 (block_Chain block)
               then s1\<lparr>mem_lastBlocks := (mem_lastBlocks s1)(block_Chain block \<mapsto> block_Number block)\<rparr>
               else s1)
     in (None, s2))"

definition MemoryStorage_GetLastIndexedBlock :: "string \<Rightarrow> MemoryStorage \<Rightarrow> uint64 \<times> error option" where
  "MemoryStorage_GetLastIndexedBlock chain s = (lastBlocksAt s chain, None)"

definition MemoryStorage_SaveEvents :: "Event list \<Rightarrow> MemoryStorage \<Rightarrow> error option \<times> MemoryStorage" where
  "MemoryStorage_SaveEvents evs s =
    (None, foldl (\<lambda>s event.
              s\<lparr>mem_events := (mem_events s)
                   (event_Chain event \<mapsto> eventsAt s (event_Chain event) @ [event])\<rparr>) s evs)"

definition MemoryStorage_GetEvents :: "string \<Rightarrow> uint64 \<Rightarrow> uint64 \<Rightarrow> MemoryStorage \<Rightarrow> Event list \<times> error option" where
  "MemoryStorage_GetEvents chain from to s =
    (filter (\<lambda>event. event_BlockNumber event \<ge> from \<and> event_BlockNumber event \<le> to) (eventsAt s chain), None)"

definition MemoryStorage_Storage :: "MemoryStorage Storage" where
  "MemoryStorage_Storage =
    \<lparr> SaveBlock = MemoryStorage_SaveBlock,
      GetLastIndexedBlock = MemoryStorage_GetLastIndexedBlock,
      SaveEvents = MemoryStorage_SaveEvents \<rparr>"

subsection \<open>PostgresStorage\<close>

text \<open>The two tables of \<open>createTables\<close>. A \<open>BIGINT\<close> column is a 64-bit word and an \<open>INT\<close>
  column a 32-bit word, both read as signed. The \<open>address\<close> column holds \<open>Address.Hex()\<close> and
  the \<open>data\<close> column the JSON of the event data; both are kept as the values they spell.
  Each table has the sequence behind its \<open>SERIAL\<close> column.\<close>

record indexed_blocks_row =
  ib_id :: nat
  ib_chain :: string
  ib_block_number :: uint64
  ib_block_hash :: string
  ib_indexed_at :: nat

record events_row =
  ev_id :: nat
  ev_chain :: string
  ev_block_number :: uint64
  ev_block_hash :: string
  ev_transaction_hash :: string
  ev_log_index :: "32 word"
  ev_address :: Address
  ev_event_name :: string
  ev_protocol :: string
  ev_data :: EventData
  ev_created_at :: nat

record PostgresStorage =
  pg_indexed_blocks :: "indexed_blocks_row list"
  pg_indexed_blocks_seq :: nat
  pg_events :: "events_row list"
  pg_events_seq :: nat

text \<open>Which statements the database server rejects during one call (a lost connection, a
  value too long for its column): an input of the model.\<close>

record PostgresFaults =
  saveBlockFails :: bool
  getLastFails :: bool
  beginFails :: bool
  prepareFails :: bool
  execFails :: "nat \<Rightarrow> bool"
  commitFails :: bool

definition noFaults :: PostgresFaults where
  "noFaults =
    \<lparr> saveBlockFails = False, getLastFails = False, beginFails = False, prepareFails = False,
      execFails = (\<lambda>i. False), commitFails = False \<rparr>"

text \<open>\<open>NewPostgresStorage\<close> on a fresh database: \<open>createTables\<close> leaves both tables empty.\<close>

definition NewPostgresStorage :: PostgresStorage where
  "NewPostgresStorage =
    \<lparr> pg_indexed_blocks = [], pg_indexed_blocks_seq = 0, pg_events = [], pg_events_seq = 0 \<rparr>"

text \<open>\<open>database/sql\<close> refuses a \<open>uint64\<close> argument whose high bit is set.\<close>

definition highBit :: "uint64 \<Rightarrow> bool" where
  "highBit n \<longleftrightarrow> n \<ge> 2 ^ 63"

text \<open>\<open>INSERT ... ON CONFLICT (chain, block_number) DO UPDATE SET indexed_at\<close>.\<close>

definition PostgresStorage_SaveBlock :: "PostgresFaults \<Rightarrow> Block \<Rightarrow> PostgresStorage \<Rightarrow> error option \<times> PostgresStorage" where
  "PostgresStorage_SaveBlock faults block db =
    (if highBit (block_Number block)
       then (Some (Errorf ''sql: uint64 values with high bit set are not supported''), db)
     else if saveBlockFails faults then (Some (Errorf ''pq: statement failed''), db)
     else
       let conflict = (\<lambda>r. ib_chain r = block_Chain block \<and> ib_block_number r = block_Number block);
           seq = Suc (pg_indexed_blocks_seq db)
       in if list_ex conflict (pg_indexed_blocks db)
          then (None, db\<lparr> pg_indexed_blocks_seq := seq,
                          pg_indexed_blocks :=
                            map (\<lambda>r. if conflict r then r\<lparr>ib_indexed_at := block_Timestamp block\<rparr> else r)
                              (pg_indexed_blocks db) \<rparr>)
          else (None, db\<lparr> pg_indexed_blocks_seq := seq,
                          pg_indexed_blocks := pg_indexed_blocks db @
                            [\<lparr> ib_id = seq, ib_chain = block_Chain block,
                               ib_block_number = block_Number block,
                               ib_block_hash = block_Hash block,
                               ib_indexed_at = block_Timestamp block \<rparr>] \<rparr>))"

text \<open>\<open>SELECT block_number ... ORDER BY block_number DESC LIMIT 1\<close>: the greatest block
  number of the chain in the signed order of \<open>BIGINT\<close>; no row gives \<open>(0, nil)\<close>, and a
  negative number does not scan into a \<open>uint64\<close>.\<close>

definition smax :: "uint64 \<Rightarrow> uint64 \<Rightarrow> uint64" where
  "smax a b = (if word_sle a b then b else a)"

definition chainNumbers :: "string \<Rightarrow> PostgresStorage \<Rightarrow> uint64 list" where
  "chainNumbers chain db = map ib_block_number (filter (\<lambda>r. ib_chain r = chain) (pg_indexed_blocks db))"

definition PostgresStorage_GetLastIndexedBlock :: "PostgresFaults \<Rightarrow> string \<Rightarrow> PostgresStorage \<Rightarrow> uint64 \<times> error option" where
  "PostgresStorage_GetLastIndexedBlock faults chain db =
    (if getLastFails faults then (0, Some (Errorf ''pq: statement failed''))
     else case chainNumbers chain db of
       [] \<Rightarrow> (0, None)
     | n # ns \<Rightarrow>
         let blockNumber = foldl smax n ns in
         if sint blockNumber < 0 then (0, Some (Errorf ''sql: Scan error: converting int64 to a uint64''))
         else (blockNumber, None))"

text \<open>\<open>INSERT ... ON CONFLICT (chain, transaction_hash, log_index) DO NOTHING\<close> of one event.
  The sequence advances whether or not the row is inserted.\<close>

definition eventConflict :: "Event \<Rightarrow> events_row \<Rightarrow> bool" where
  "eventConflict event r \<longleftrightarrow>
     ev_chain r = event_Chain event
     \<and> ev_transaction_hash r = event_TransactionHash event
     \<and> ev_log_index r = ucast (event_LogIndex event)"

definition insertEvent :: "nat \<Rightarrow> Event \<Rightarrow> PostgresStorage \<Rightarrow> PostgresStorage" where
  "insertEvent now event tx =
    (let seq = Suc (pg_events_seq tx)
     in if list_ex (eventConflict event) (pg_events tx) then tx\<lparr>pg_events_seq := seq\<rparr>
        else tx\<lparr> pg_events_seq := seq,
                 pg_events := pg_events tx @
                   [\<lparr> ev_id = seq, ev_chain = event_Chain event,
                      ev_block_number = event_BlockNumber event,
                      ev_block_hash = event_BlockHash event,
                      ev_transaction_hash = event_TransactionHash event,
                      ev_log_index = ucast (event_LogIndex event),
                      ev_address = event_Address event,
                      ev_event_name = event_EventName event,
                      ev_protocol = event_Protocol event,
                      ev_data = event_Data event,
                      ev_created_at = now \<rparr>] \<rparr>)"

text \<open>\<open>Event.LogIndex\<close> is a Go \<open>uint\<close>, which \<open>database/sql\<close> converts to \<open>int64\<close> with no
  test (only a \<open>uint64\<close> such as \<open>Event.BlockNumber\<close> is refused when its high bit is set).
  The server therefore sees the index as a signed 64-bit number and accepts it when it fits
  the \<open>INT\<close> column.\<close>

definition fitsInt :: "uint64 \<Rightarrow> bool" where
  "fitsInt n \<longleftrightarrow> - (2 ^ 31) \<le> sint n \<and> sint n < 2 ^ 31"

text \<open>The loop of \<open>SaveEvents\<close> inside the transaction; \<open>i\<close> counts the statements already
  executed.\<close>

fun insertEvents :: "PostgresFaults \<Rightarrow> nat \<Rightarrow> nat \<Rightarrow> Event list \<Rightarrow> PostgresStorage \<Rightarrow> error option \<times> PostgresStorage" where
  "insertEvents faults now i [] tx = (None, tx)"
| "insertEvents faults now i (event # rest) tx =
    (if highBit (event_BlockNumber event)
       then (Some (Errorf ''sql: uint64 values with high bit set are not supported''), tx)
     else if \<not> fitsInt (event_LogIndex event) then (Some (Errorf ''pq: integer out of range''), tx)
     else if execFails faults i then (Some (Errorf ''pq: statement failed''), tx)
     else insertEvents faults now (Suc i) rest (insertEvent now event tx))"

text \<open>\<open>SaveEvents\<close>: every error return runs the deferred rollback, which restores the table
  but not the sequence.\<close>

definition PostgresStorage_SaveEvents :: "PostgresFaults \<Rightarrow> nat \<Rightarrow> Event list \<Rightarrow> PostgresStorage \<Rightarrow> error option \<times> PostgresStorage" where
  "PostgresStorage_SaveEvents faults now evs db =
    (if length evs = 0 then (None, db)
     else if beginFails faults then (Some (Errorf ''pq: begin failed''), db)
     else if prepareFails faults then (Some (Errorf ''pq: prepare failed''), db)
     else case insertEvents faults now 0 evs db of
       (Some e, tx) \<Rightarrow> (Some e, db\<lparr>pg_events_seq := pg_events_seq tx\<rparr>)
     | (None, tx) \<Rightarrow>
         if commitFails faults then (Some (Errorf ''pq: commit failed''), db\<lparr>pg_events_seq := pg_events_seq tx\<rparr>)
         else (None, tx))"

definition PostgresStorage_Storage :: "PostgresFaults \<Rightarrow> nat \<Rightarrow> PostgresStorage Storage" where
  "PostgresStorage_Storage faults now =
    \<lparr> SaveBlock = PostgresStorage_SaveBlock faults,
      GetLastIndexedBlock = PostgresStorage_GetLastIndexedBlock faults,
      SaveEvents = PostgresStorage_SaveEvents faults now \<rparr>"

text \<open>The key of the constraint \<open>UNIQUE(chain, transaction_hash, log_index)\<close>.\<close>

definition rowKey :: "events_row \<Rightarrow> string \<times> string \<times> 32 word" where
  "rowKey r = (ev_chain r, ev_transaction_hash r, ev_log_index r)"

text \<open>A sequence of \<open>SaveBlock\<close> calls on each store; on the database each call comes with
  its own faults.\<close>

definition MemoryStorage_SaveBlocks :: "Block list \<Rightarrow> MemoryStorage \<Rightarrow> MemoryStorage" where
  "MemoryStorage_SaveBlocks blocks s = foldl (\<lambda>s block. snd (MemoryStorage_SaveBlock block s)) s blocks"

definition PostgresStorage_SaveBlocks :: "(PostgresFaults \<times> Block) list \<Rightarrow> PostgresStorage \<Rightarrow> PostgresStorage" where
  "PostgresStorage_SaveBlocks calls db =
    foldl (\<lambda>db (faults, block). snd (PostgresStorage_SaveBlock faults block db)) db calls"

section \<open>Properties of the processors\<close>

text \<open>\<open>String\<close> prints a number in decimal digits that spell it, \<open>SetBytes\<close> reads its
  bytes big-endian, and the address taken from a topic consists of its last 20 bytes, the
  low 160 bits of the hash.\<close>

lemma digit10_value: "d < 10 \<Longrightarrow> of_char (digit10 d) - 48 = d"
  by (simp add: digit10_def)

lemma decimalValue_snoc: "decimalValue (s @ [c]) = 10 * decimalValue s + (of_char c - 48)"
  by (simp add: decimalValue_def)

lemma BigInt_String_value: "decimalValue (BigInt_String n) = n"
proof (induction n rule: BigInt_String.induct)
  case (1 n)
  show ?case
  proof (cases "n < 10")
    case True
    then show ?thesis
      by (subst BigInt_String.simps) (simp add: decimalValue_def digit10_value)
  next
    case False
    then have "decimalValue (BigInt_String (n div 10)) = n div 10" using 1 by simp
    then show ?thesis
      using False
      by (subst BigInt_String.simps) (simp add: decimalValue_snoc digit10_value)
  qed
qed

lemma BigInt_String_digits: "set (BigInt_String n) \<subseteq> digit10 ` {0..<10}"
proof (induction n rule: BigInt_String.induct)
  case (1 n)
  show ?case
  proof (cases "n < 10")
    case True
    then show ?thesis by (subst BigInt_String.simps) simp
  next
    case False
    then show ?thesis using 1
      by (subst BigInt_String.simps) simp
  qed
qed

lemma SetBytes_foldl:
  "foldl (\<lambda>acc x. acc * 256 + unat (x :: byte)) a bs = a * 256 ^ length bs + SetBytes bs"
proof (induction bs arbitrary: a)
  case Nil
  then show ?case by (simp add: SetBytes_def)
next
  case (Cons b bs)
  have "foldl (\<lambda>acc x. acc * 256 + unat x) a (b # bs)
        = (a * 256 + unat b) * 256 ^ length bs + SetBytes bs"
    using Cons [of "a * 256 + unat b"] by simp
  moreover have "SetBytes (b # bs) = unat b * 256 ^ length bs + SetBytes bs"
    using Cons [of "unat b"] by (simp add: SetBytes_def)
  ultimately show ?case by (simp add: algebra_simps)
qed

lemma SetBytes_Cons: "SetBytes (b # bs) = unat b * 256 ^ length bs + SetBytes bs"
  using SetBytes_foldl [of "unat b" bs] by (simp add: SetBytes_def)

lemma SetBytes_bound: "SetBytes bs < 256 ^ length bs"
proof (induction bs)
  case Nil
  then show ?case by (simp add: SetBytes_def)
next
  case (Cons b bs)
  define P :: nat where "P = 256 ^ length bs"
  have "unat b < 256" using unsigned_less [of b, where ?'a = nat] by simp
  then have "unat b * P \<le> 255 * P" by (intro mult_le_mono1) simp
  moreover have "SetBytes bs < P" using Cons by (simp add: P_def)
  ultimately have "unat b * P + SetBytes bs < 256 * P" by linarith
  then show ?case by (simp add: SetBytes_Cons P_def)
qed

lemma beBytes_value:
  "SetBytes (map (\<lambda>i. (ucast (drop_bit (8 * (n - 1 - i)) h) :: byte)) [0..<n]) = take_bit (8 * n) (unat (h :: Hash))"
proof (induction n)
  case 0
  then show ?case by (simp add: SetBytes_def)
next
  case (Suc n)
  have split: "[0..<Suc n] = 0 # map Suc [0..<n]"
    by (simp add: upt_conv_Cons map_Suc_upt del: upt_Suc)
  have hd: "unat (ucast (drop_bit (8 * n) h) :: byte) = take_bit 8 (drop_bit (8 * n) (unat h))"
    by (simp add: unsigned_ucast_eq unat_drop_bit_eq)
  have "SetBytes (map (\<lambda>i. (ucast (drop_bit (8 * (Suc n - 1 - i)) h) :: byte)) [0..<Suc n])
        = take_bit 8 (drop_bit (8 * n) (unat h)) * 256 ^ n + take_bit (8 * n) (unat h)"
    unfolding split using Suc by (simp add: SetBytes_Cons hd comp_def del: upt_Suc)
  also have "\<dots> = take_bit (8 * Suc n) (unat h)"
  proof -
    have p: "(256 :: nat) ^ n = 2 ^ (8 * n)" by (simp add: power_mult)
    have "unat h mod (2 ^ (8 * n) * 2 ^ 8)
          = 2 ^ (8 * n) * (unat h div 2 ^ (8 * n) mod 2 ^ 8) + unat h mod 2 ^ (8 * n)"
      by (rule mod_mult2_eq)
    then show ?thesis
      by (simp add: take_bit_eq_mod drop_bit_eq_div p power_add mult.commute)
  qed
  finally show ?case .
qed

lemma drop12_Hash_Bytes:
  "drop 12 (Hash_Bytes h) = map (\<lambda>i. (ucast (drop_bit (8 * (20 - 1 - i)) h) :: byte)) [0..<20]"
proof -
  have "drop 12 (Hash_Bytes h) = map (\<lambda>i. (ucast (drop_bit (8 * (31 - i)) h) :: byte)) [12..<32]"
    by (simp add: Hash_Bytes_def drop_map drop_upt)
  also have "[12..<32] = map (\<lambda>i. i + 12) [0..<20]"
    by (simp add: map_add_upt)
  also have "map (\<lambda>i. (ucast (drop_bit (8 * (31 - i)) h) :: byte)) (map (\<lambda>i. i + 12) [0..<20])
      = map (\<lambda>i. (ucast (drop_bit (8 * (20 - 1 - i)) h) :: byte)) [0..<20]"
    unfolding map_map comp_def by (rule map_cong [OF refl]) simp
  finally show ?thesis .
qed

lemma BytesToAddress_Hash_Bytes: "BytesToAddress (Hash_Bytes h) = ucast h"
proof -
  have "length (Hash_Bytes h) = 32" by (simp add: Hash_Bytes_def)
  then have "BytesToAddress (Hash_Bytes h) = of_nat (SetBytes (drop 12 (Hash_Bytes h)))"
    by (simp add: BytesToAddress_def)
  also have "\<dots> = (of_nat (take_bit 160 (unat h)) :: Address)"
    unfolding drop12_Hash_Bytes beBytes_value by simp
  also have "\<dots> = of_nat (unat h)"
    by (subst word_of_nat_eq_iff) simp
  also have "\<dots> = ucast h" by simp
  finally show ?thesis .
qed

lemma isTracked_iff: "isTracked a tokens \<longleftrightarrow> a \<in> set tokens"
  by (induction tokens) auto

text \<open>Claim C10. A log whose emitting address is not among the tracked tokens makes
  \<open>GenericERC20Processor.Process\<close> return no event and no error, whatever its topics and
  data are: the address test comes before the test on the number of topics.\<close>

theorem GenericERC20_Process_untracked:
  "log_Address log \<notin> set (erc_tokens p) \<Longrightarrow> GenericERC20_Process p log = Returns (None, None)"
  by (simp add: GenericERC20_Process_def isTracked_iff)

theorem GenericERC20_Process_untracked_witness:
  "(0xBB :: Address) \<notin> set (erc_tokens (NewGenericERC20Processor ''erc20'' [0xAA]))
   \<and> GenericERC20_Process (NewGenericERC20Processor ''erc20'' [0xAA])
       \<lparr> log_Address = 0xBB, log_Topics = [Keccak256Hash ''Transfer(address,address,uint256)''],
         log_Data = [], log_BlockNumber = 7, log_TxHash = 1, log_TxIndex = 0,
         log_BlockHash = 2, log_Index = 0, log_Removed = False \<rparr> = Returns (None, None)"
  using GenericERC20_Process_untracked
    [of "\<lparr> log_Address = 0xBB, log_Topics = [Keccak256Hash ''Transfer(address,address,uint256)''],
         log_Data = [], log_BlockNumber = 7, log_TxHash = 1, log_TxIndex = 0,
         log_BlockHash = 2, log_Index = 0, log_Removed = False \<rparr>"
        "NewGenericERC20Processor ''erc20'' [0xAA]"]
  by (simp add: NewGenericERC20Processor_def)

lemma dataWord_ok:
  "hi \<le> length (log_Data log) \<Longrightarrow> lo \<le> hi \<Longrightarrow>
   dataWord log lo hi = Returns (SetBytes (take (hi - lo) (drop lo (log_Data log))))"
  by (simp add: dataWord_def slice_def obind_def)

lemma topicAddress_ok:
  "i < length (log_Topics log) \<Longrightarrow>
   topicAddress log i = Returns (BytesToAddress (Hash_Bytes (log_Topics log ! i)))"
  by (simp add: topicAddress_def index_def obind_def)

text \<open>Claim C9. A log whose first topic is the hash of the Uniswap V2 \<open>Swap\<close> signature,
  with a payload of at least 128 bytes and at least three topics, decodes to an event whose
  data map binds \<open>amount0_in\<close>, \<open>amount1_in\<close>, \<open>amount0_out\<close> and \<open>amount1_out\<close> to the
  base-10 strings of the four consecutive 32-byte big-endian words of the payload, and
  \<open>sender\<close> and \<open>to\<close> to the addresses in topics 1 and 2 (the low 160 bits of each topic);
  a payload shorter than 128 bytes gives the error \<open>invalid swap data\<close>.\<close>

theorem UniswapV2_Process_Swap:
  assumes "log_Topics log \<noteq> []"
    and "log_Topics log ! 0 = Keccak256Hash ''Swap(address,uint256,uint256,uint256,uint256,address)''"
  shows "(128 \<le> length (log_Data log) \<and> 3 \<le> length (log_Topics log) \<longrightarrow>
          (\<exists>e. UniswapV2_Process p log = Returns (Some e, None)
             \<and> event_EventName e = ''Swap''
             \<and> event_Data e ''amount0_in'' = Some (StringValue (BigInt_String (SetBytes (take 32 (log_Data log)))))
             \<and> event_Data e ''amount1_in'' = Some (StringValue (BigInt_String (SetBytes (take 32 (drop 32 (log_Data log))))))
             \<and> event_Data e ''amount0_out'' = Some (StringValue (BigInt_String (SetBytes (take 32 (drop 64 (log_Data log))))))
             \<and> event_Data e ''amount1_out'' = Some (StringValue (BigInt_String (SetBytes (take 32 (drop 96 (log_Data log))))))
             \<and> event_Data e ''sender'' = Some (AddressValue (ucast (log_Topics log ! 1)))
             \<and> event_Data e ''to'' = Some (AddressValue (ucast (log_Topics log ! 2)))))
       \<and> (length (log_Data log) < 128 \<longrightarrow>
            UniswapV2_Process p log = Returns (None, Some (Errorf ''invalid swap data'')))"
proof (intro conjI impI)
  assume h: "128 \<le> length (log_Data log) \<and> 3 \<le> length (log_Topics log)"
  have P: "UniswapV2_Process p log = processSwap p (newEvent (uni_protocolName p) log) log"
    using assms by (simp add: UniswapV2_Process_def Let_def)
  show "\<exists>e. UniswapV2_Process p log = Returns (Some e, None)
             \<and> event_EventName e = ''Swap''
             \<and> event_Data e ''amount0_in'' = Some (StringValue (BigInt_String (SetBytes (take 32 (log_Data log)))))
             \<and> event_Data e ''amount1_in'' = Some (StringValue (BigInt_String (SetBytes (take 32 (drop 32 (log_Data log))))))
             \<and> event_Data e ''amount0_out'' = Some (StringValue (BigInt_String (SetBytes (take 32 (drop 64 (log_Data log))))))
             \<and> event_Data e ''amount1_out'' = Some (StringValue (BigInt_String (SetBytes (take 32 (drop 96 (log_Data log))))))
             \<and> event_Data e ''sender'' = Some (AddressValue (ucast (log_Topics log ! 1)))
             \<and> event_Data e ''to'' = Some (AddressValue (ucast (log_Topics log ! 2)))"
    using h unfolding P
    by (simp add: processSwap_def Let_def dataWord_ok topicAddress_ok obind_def
        BytesToAddress_Hash_Bytes)
next
  assume "length (log_Data log) < 128"
  then show "UniswapV2_Process p log = Returns (None, Some (Errorf ''invalid swap data''))"
    using assms by (simp add: UniswapV2_Process_def processSwap_def Let_def)
qed

theorem UniswapV2_Process_Swap_witness:
  "(\<exists>e. UniswapV2_Process (NewUniswapV2Processor 0x5C69)
           \<lparr> log_Address = 0xBB,
             log_Topics = [Keccak256Hash ''Swap(address,uint256,uint256,uint256,uint256,address)'', 0xA1, 0xA2],
             log_Data = replicate 31 0 @ [5] @ replicate 31 0 @ [2] @ replicate 31 0 @ [3] @ replicate 30 0 @ [1, 0],
             log_BlockNumber = 7, log_TxHash = 1, log_TxIndex = 0,
             log_BlockHash = 2, log_Index = 0, log_Removed = False \<rparr> = Returns (Some e, None)
        \<and> event_Data e ''amount0_in'' = Some (StringValue ''5'')
        \<and> event_Data e ''amount1_in'' = Some (StringValue ''2'')
        \<and> event_Data e ''amount0_out'' = Some (StringValue ''3'')
        \<and> event_Data e ''amount1_out'' = Some (StringValue ''256'')
        \<and> event_Data e ''sender'' = Some (AddressValue 0xA1)
        \<and> event_Data e ''to'' = Some (AddressValue 0xA2))
   \<and> UniswapV2_Process (NewUniswapV2Processor 0x5C69)
           \<lparr> log_Address = 0xBB,
             log_Topics = [Keccak256Hash ''Swap(address,uint256,uint256,uint256,uint256,address)''],
             log_Data = replicate 127 0,
             log_BlockNumber = 7, log_TxHash = 1, log_TxIndex = 0,
             log_BlockHash = 2, log_Index = 0, log_Removed = False \<rparr>
       = Returns (None, Some (Errorf ''invalid swap data''))"
proof -
  have b: "(ucast (0xA1 :: Hash) :: Address) = 0xA1" "(ucast (0xA2 :: Hash) :: Address) = 0xA2"
    by simp_all
  have s: "BigInt_String 5 = ''5''" "BigInt_String 2 = ''2''" "BigInt_String 3 = ''3''"
     "BigInt_String 256 = ''256''"
    by code_simp+
  have n: "SetBytes (replicate 31 0 @ [5]) = 5" "SetBytes (replicate 31 0 @ [2]) = 2"
     "SetBytes (replicate 31 0 @ [3]) = 3" "SetBytes (replicate 30 0 @ [1, 0]) = 256"
    by code_simp+
  show ?thesis
    using UniswapV2_Process_Swap
      [of "\<lparr> log_Address = 0xBB,
             log_Topics = [Keccak256Hash ''Swap(address,uint256,uint256,uint256,uint256,address)'', 0xA1, 0xA2],
             log_Data = replicate 31 0 @ [5] @ replicate 31 0 @ [2] @ replicate 31 0 @ [3] @ replicate 30 0 @ [1, 0],
             log_BlockNumber = 7, log_TxHash = 1, log_TxIndex = 0,
             log_BlockHash = 2, log_Index = 0, log_Removed = False \<rparr>" "NewUniswapV2Processor 0x5C69"]
      UniswapV2_Process_Swap
      [of "\<lparr> log_Address = 0xBB,
             log_Topics = [Keccak256Hash ''Swap(address,uint256,uint256,uint256,uint256,address)''],
             log_Data = replicate 127 0,
             log_BlockNumber = 7, log_TxHash = 1, log_TxIndex = 0,
             log_BlockHash = 2, log_Index = 0, log_Removed = False \<rparr>" "NewUniswapV2Processor 0x5C69"]
    by (auto simp add: b s n)
qed

section \<open>Properties of the dispatch\<close>

text \<open>Claim C8 says that a log with a claimed signature and a malformed payload gives an
  error, is skipped, and leaves the worker running. The Uniswap decoders test the length of
  the payload before they slice it; the Aave decoders do not. On a \<open>Supply\<close> log with four
  topics and an empty payload \<open>AaveV3Processor.Process\<close> panics at \<open>log.Data[0:32]\<close>, and the
  panic unwinds \<open>processLog\<close> and the loop of \<open>processBatch\<close> over the logs, whatever logs
  follow.\<close>

theorem processLog_Supply_empty_payload_panics:
  "AaveV3_Process (NewAaveV3Processor pool)
     \<lparr> log_Address = pool,
       log_Topics = [Keccak256Hash ''Supply(address,address,address,uint256,uint16)'', 0xA1, 0xA2, 0xA3],
       log_Data = [], log_BlockNumber = 7, log_TxHash = 1, log_TxIndex = 0,
       log_BlockHash = 2, log_Index = 0, log_Removed = False \<rparr>
     = Panics ''slice bounds out of range''
   \<and> processLog (RegisterProcessor (NewIndexer cfg) (AaveV3 (NewAaveV3Processor pool))) [''aave-v3''] chain
     \<lparr> log_Address = pool,
       log_Topics = [Keccak256Hash ''Supply(address,address,address,uint256,uint16)'', 0xA1, 0xA2, 0xA3],
       log_Data = [], log_BlockNumber = 7, log_TxHash = 1, log_TxIndex = 0,
       log_BlockHash = 2, log_Index = 0, log_Removed = False \<rparr>
     = Panics ''slice bounds out of range''
   \<and> processLogs (RegisterProcessor (NewIndexer cfg) (AaveV3 (NewAaveV3Processor pool))) (\<lambda>i. [''aave-v3'']) chain 0
     (\<lparr> log_Address = pool,
       log_Topics = [Keccak256Hash ''Supply(address,address,address,uint256,uint16)'', 0xA1, 0xA2, 0xA3],
       log_Data = [], log_BlockNumber = 7, log_TxHash = 1, log_TxIndex = 0,
       log_BlockHash = 2, log_Index = 0, log_Removed = False \<rparr> # logs) []
     = Panics ''slice bounds out of range''"
proof -
  let ?L = "\<lparr> log_Address = pool,
       log_Topics = [Keccak256Hash ''Supply(address,address,address,uint256,uint16)'', 0xA1, 0xA2, 0xA3],
       log_Data = [], log_BlockNumber = 7, log_TxHash = 1, log_TxIndex = 0,
       log_BlockHash = 2, log_Index = 0, log_Removed = False \<rparr>"
  have P: "AaveV3_Process (NewAaveV3Processor pool) ?L = Panics ''slice bounds out of range''"
    by (simp add: AaveV3_Process_def processSupply_def Let_def dataWord_def slice_def obind_def)
  have Q: "processLog (RegisterProcessor (NewIndexer cfg) (AaveV3 (NewAaveV3Processor pool))) [''aave-v3''] chain ?L
      = Panics ''slice bounds out of range''"
    by (simp add: processLog_def RegisterProcessor_def NewIndexer_def range_values_def
        AaveV3_def NewAaveV3Processor_def AaveV3_GetEventSignatures_def
        P [unfolded NewAaveV3Processor_def] obind_def)
  show ?thesis
    using P Q by (simp add: obind_def)
qed

lemma processLog_signatures_skip:
  "log_Topics log = [] \<or> log_Topics log ! 0 \<notin> set sigs \<or> Process p log = Returns (None, None)
   \<Longrightarrow> processLog_signatures p chain log sigs = Returns None"
  by (induction sigs) (auto simp: obind_def)

lemma processLog_signatures_hit:
  "log_Topics log \<noteq> [] \<Longrightarrow> log_Topics log ! 0 \<in> set sigs \<Longrightarrow>
   Process p log = Returns (event, err) \<Longrightarrow> err \<noteq> None \<or> event \<noteq> None \<Longrightarrow>
   processLog_signatures p chain log sigs
     = Returns (Some (if err \<noteq> None then None else map_option (\<lambda>e. e\<lparr>event_Chain := chain\<rparr>) event))"
  by (induction sigs) (auto simp: obind_def)

lemma processLog_processors_first:
  "\<forall>p \<in> set pre. log_Topics log ! 0 \<notin> set (GetEventSignatures p) \<or> Process p log = Returns (None, None) \<Longrightarrow>
   log_Topics log \<noteq> [] \<Longrightarrow> log_Topics log ! 0 \<in> set (GetEventSignatures D1) \<Longrightarrow>
   Process D1 log = Returns (event, err) \<Longrightarrow> err \<noteq> None \<or> event \<noteq> None \<Longrightarrow>
   processLog_processors chain log (pre @ D1 # post)
     = Returns (if err \<noteq> None then None else map_option (\<lambda>e. e\<lparr>event_Chain := chain\<rparr>) event)"
proof (induction pre)
  case Nil
  then show ?case
    using processLog_signatures_hit [of log "GetEventSignatures D1" D1 event err chain]
    by (simp add: obind_def)
next
  case (Cons a pre)
  have "processLog_signatures a chain log (GetEventSignatures a) = Returns None"
    using Cons.prems(1) by (intro processLog_signatures_skip) auto
  then show ?case using Cons by (simp add: obind_def)
qed

text \<open>Claim C1, as amended. \<open>processLog\<close> visits the processors in the order \<open>ks\<close> of the
  map iteration, not in the order of registration. When the processors visited before \<open>D1\<close>
  either do not list the first topic of the log among their signatures or return the pair
  \<open>(nil, nil)\<close> for it, and \<open>D1\<close> lists the topic and returns an event or an error, the
  result of \<open>processLog\<close> is that of \<open>D1\<close>: its event stamped with the chain, or no event on
  an error. The processors visited after \<open>D1\<close> have no part in it.\<close>

theorem processLog_first_visited_claimant:
  assumes "range_values (processors idx) ks = pre @ D1 # post"
    and "\<forall>p \<in> set pre. log_Topics log ! 0 \<notin> set (GetEventSignatures p) \<or> Process p log = Returns (None, None)"
    and "log_Topics log \<noteq> []" and "log_Topics log ! 0 \<in> set (GetEventSignatures D1)"
    and "Process D1 log = Returns (event, err)" and "err \<noteq> None \<or> event \<noteq> None"
  shows "processLog idx ks chain log
     = Returns (if err \<noteq> None then None else map_option (\<lambda>e. e\<lparr>event_Chain := chain\<rparr>) event)"
  unfolding processLog_def assms(1)
  using assms(2-) by (rule processLog_processors_first)

theorem processLog_first_visited_claimant_witness:
  "range_values (processors (RegisterProcessor (RegisterProcessor (RegisterProcessor (RegisterProcessor (NewIndexer mainConfig)
        (UniswapV2 (NewUniswapV2Processor 0x5C69))) (GenericERC20 (NewGenericERC20Processor ''tokens-a'' [0xA])))
        (GenericERC20 (NewGenericERC20Processor ''tokens-b'' [0xB]))) (GenericERC20 (NewGenericERC20Processor ''tokens-c'' [0xB])))) [''uniswap-v2'', ''tokens-a'', ''tokens-b'', ''tokens-c'']
     = [UniswapV2 (NewUniswapV2Processor 0x5C69), GenericERC20 (NewGenericERC20Processor ''tokens-a'' [0xA])] @ (GenericERC20 (NewGenericERC20Processor ''tokens-b'' [0xB])) # [GenericERC20 (NewGenericERC20Processor ''tokens-c'' [0xB])]
   \<and> Keccak256Hash ''Transfer(address,address,uint256)'' \<notin> set (GetEventSignatures (UniswapV2 (NewUniswapV2Processor 0x5C69)))
   \<and> Process (GenericERC20 (NewGenericERC20Processor ''tokens-a'' [0xA]))
       \<lparr> log_Address = 0xB,
       log_Topics = [Keccak256Hash ''Transfer(address,address,uint256)'', 0xA1, 0xA2],
       log_Data = [5], log_BlockNumber = 7, log_TxHash = 1, log_TxIndex = 0,
       log_BlockHash = 2, log_Index = 3, log_Removed = False \<rparr> = Returns (None, None)
   \<and> Keccak256Hash ''Transfer(address,address,uint256)'' \<in> set (GetEventSignatures (GenericERC20 (NewGenericERC20Processor ''tokens-b'' [0xB])))
   \<and> Process (GenericERC20 (NewGenericERC20Processor ''tokens-b'' [0xB]))
       \<lparr> log_Address = 0xB,
       log_Topics = [Keccak256Hash ''Transfer(address,address,uint256)'', 0xA1, 0xA2],
       log_Data = [5], log_BlockNumber = 7, log_TxHash = 1, log_TxIndex = 0,
       log_BlockHash = 2, log_Index = 3, log_Removed = False \<rparr>
     = Returns (Some \<lparr> event_ID = 0, event_Chain = [],
         event_BlockNumber = 7, event_BlockHash = Hash_Hex 2, event_TransactionHash = Hash_Hex 1,
         event_LogIndex = 3, event_Address = 0xB, event_EventName = ''Transfer'',
         event_Protocol = ''tokens-b'',
         event_Data = map_of
           [ (''from'', AddressValue (BytesToAddress (Hash_Bytes 0xA1))),
             (''to'', AddressValue (BytesToAddress (Hash_Bytes 0xA2))),
             (''amount'', StringValue (BigInt_String (SetBytes [5]))),
             (''token'', HexValue 0xB) ],
         event_Timestamp = 0 \<rparr>, None)
   \<and> processLog (RegisterProcessor (RegisterProcessor (RegisterProcessor (RegisterProcessor (NewIndexer mainConfig)
        (UniswapV2 (NewUniswapV2Processor 0x5C69))) (GenericERC20 (NewGenericERC20Processor ''tokens-a'' [0xA])))
        (GenericERC20 (NewGenericERC20Processor ''tokens-b'' [0xB]))) (GenericERC20 (NewGenericERC20Processor ''tokens-c'' [0xB]))) [''uniswap-v2'', ''tokens-a'', ''tokens-b'', ''tokens-c''] ''ethereum''
       \<lparr> log_Address = 0xB,
       log_Topics = [Keccak256Hash ''Transfer(address,address,uint256)'', 0xA1, 0xA2],
       log_Data = [5], log_BlockNumber = 7, log_TxHash = 1, log_TxIndex = 0,
       log_BlockHash = 2, log_Index = 3, log_Removed = False \<rparr>
     = Returns (Some \<lparr> event_ID = 0, event_Chain = ''ethereum'',
         event_BlockNumber = 7, event_BlockHash = Hash_Hex 2, event_TransactionHash = Hash_Hex 1,
         event_LogIndex = 3, event_Address = 0xB, event_EventName = ''Transfer'',
         event_Protocol = ''tokens-b'',
         event_Data = map_of
           [ (''from'', AddressValue (BytesToAddress (Hash_Bytes 0xA1))),
             (''to'', AddressValue (BytesToAddress (Hash_Bytes 0xA2))),
             (''amount'', StringValue (BigInt_String (SetBytes [5]))),
             (''token'', HexValue 0xB) ],
         event_Timestamp = 0 \<rparr>)"
proof -
  have P: "Process (GenericERC20 (NewGenericERC20Processor ''tokens-b'' [0xB]))
       \<lparr> log_Address = 0xB,
       log_Topics = [Keccak256Hash ''Transfer(address,address,uint256)'', 0xA1, 0xA2],
       log_Data = [5], log_BlockNumber = 7, log_TxHash = 1, log_TxIndex = 0,
       log_BlockHash = 2, log_Index = 3, log_Removed = False \<rparr>
     = Returns (Some \<lparr> event_ID = 0, event_Chain = [],
         event_BlockNumber = 7, event_BlockHash = Hash_Hex 2, event_TransactionHash = Hash_Hex 1,
         event_LogIndex = 3, event_Address = 0xB, event_EventName = ''Transfer'',
         event_Protocol = ''tokens-b'',
         event_Data = map_of
           [ (''from'', AddressValue (BytesToAddress (Hash_Bytes 0xA1))),
             (''to'', AddressValue (BytesToAddress (Hash_Bytes 0xA2))),
             (''amount'', StringValue (BigInt_String (SetBytes [5]))),
             (''token'', HexValue 0xB) ],
         event_Timestamp = 0 \<rparr>, None)"
    by (simp add: GenericERC20_def NewGenericERC20Processor_def GenericERC20_Process_def
        topicAddress_def index_def obind_def Let_def)
  have R: "range_values (processors (RegisterProcessor (RegisterProcessor (RegisterProcessor (RegisterProcessor (NewIndexer mainConfig)
        (UniswapV2 (NewUniswapV2Processor 0x5C69))) (GenericERC20 (NewGenericERC20Processor ''tokens-a'' [0xA])))
        (GenericERC20 (NewGenericERC20Processor ''tokens-b'' [0xB]))) (GenericERC20 (NewGenericERC20Processor ''tokens-c'' [0xB])))) [''uniswap-v2'', ''tokens-a'', ''tokens-b'', ''tokens-c'']
     = [UniswapV2 (NewUniswapV2Processor 0x5C69), GenericERC20 (NewGenericERC20Processor ''tokens-a'' [0xA])] @ (GenericERC20 (NewGenericERC20Processor ''tokens-b'' [0xB])) # [GenericERC20 (NewGenericERC20Processor ''tokens-c'' [0xB])]"
    by (simp add: RegisterProcessor_def NewIndexer_def range_values_def
        GenericERC20_def NewGenericERC20Processor_def UniswapV2_def NewUniswapV2Processor_def)
  have S: "Keccak256Hash ''Transfer(address,address,uint256)'' \<in> set (GetEventSignatures (GenericERC20 (NewGenericERC20Processor ''tokens-b'' [0xB])))"
    by (simp add: GenericERC20_def GenericERC20_GetEventSignatures_def)
  have HU: "Keccak256Hash ''Transfer(address,address,uint256)'' \<notin> set (GetEventSignatures (UniswapV2 (NewUniswapV2Processor 0x5C69)))"
    by (simp add: UniswapV2_def UniswapV2_GetEventSignatures_def Keccak256Hash_def)
  have HA: "Process (GenericERC20 (NewGenericERC20Processor ''tokens-a'' [0xA]))
       \<lparr> log_Address = 0xB,
       log_Topics = [Keccak256Hash ''Transfer(address,address,uint256)'', 0xA1, 0xA2],
       log_Data = [5], log_BlockNumber = 7, log_TxHash = 1, log_TxIndex = 0,
       log_BlockHash = 2, log_Index = 3, log_Removed = False \<rparr> = Returns (None, None)"
    by (simp add: GenericERC20_def NewGenericERC20Processor_def GenericERC20_Process_def)
  have H: "(\<forall>p \<in> set [UniswapV2 (NewUniswapV2Processor 0x5C69), GenericERC20 (NewGenericERC20Processor ''tokens-a'' [0xA])].
        Keccak256Hash ''Transfer(address,address,uint256)'' \<notin> set (GetEventSignatures p)
        \<or> Process p
       \<lparr> log_Address = 0xB,
       log_Topics = [Keccak256Hash ''Transfer(address,address,uint256)'', 0xA1, 0xA2],
       log_Data = [5], log_BlockNumber = 7, log_TxHash = 1, log_TxIndex = 0,
       log_BlockHash = 2, log_Index = 3, log_Removed = False \<rparr> = Returns (None, None))"
    using HU HA by simp
  have H2: "(\<forall>p \<in> set [UniswapV2 (NewUniswapV2Processor 0x5C69), GenericERC20 (NewGenericERC20Processor ''tokens-a'' [0xA])].
        log_Topics
       \<lparr> log_Address = 0xB,
       log_Topics = [Keccak256Hash ''Transfer(address,address,uint256)'', 0xA1, 0xA2],
       log_Data = [5], log_BlockNumber = 7, log_TxHash = 1, log_TxIndex = 0,
       log_BlockHash = 2, log_Index = 3, log_Removed = False \<rparr> ! 0 \<notin> set (GetEventSignatures p)
        \<or> Process p
       \<lparr> log_Address = 0xB,
       log_Topics = [Keccak256Hash ''Transfer(address,address,uint256)'', 0xA1, 0xA2],
       log_Data = [5], log_BlockNumber = 7, log_TxHash = 1, log_TxIndex = 0,
       log_BlockHash = 2, log_Index = 3, log_Removed = False \<rparr> = Returns (None, None))"
    using H by simp
  show ?thesis
    using processLog_first_visited_claimant [OF R H2 _ _ P, of "''ethereum''"] P R S HU HA
    by simp
qed

text \<open>Claim C1 as stated fails. Two token processors are registered in the order
  \<open>tokens-a\<close>, \<open>tokens-b\<close>, and both list the \<open>Transfer\<close> signature. When only \<open>tokens-b\<close>
  tracks the emitting address, the log is decoded by \<open>tokens-b\<close> under both visiting orders,
  since \<open>tokens-a\<close> returns \<open>(nil, nil)\<close> and the scan goes on. When both track the address,
  the two possible visiting orders of the map give two different results.\<close>

theorem processLog_registration_order_counterexample:
  "Keccak256Hash ''Transfer(address,address,uint256)'' \<in> set (GetEventSignatures (GenericERC20 (NewGenericERC20Processor ''tokens-a'' [0xA])))
   \<and> Keccak256Hash ''Transfer(address,address,uint256)'' \<in> set (GetEventSignatures (GenericERC20 (NewGenericERC20Processor ''tokens-b'' [0xB])))
   \<and> (case processLog (RegisterProcessor (RegisterProcessor (NewIndexer mainConfig) (GenericERC20 (NewGenericERC20Processor ''tokens-a'' [0xA]))) (GenericERC20 (NewGenericERC20Processor ''tokens-b'' [0xB]))) [''tokens-a'', ''tokens-b''] ''ethereum''
       \<lparr> log_Address = 0xB,
       log_Topics = [Keccak256Hash ''Transfer(address,address,uint256)'', 0xA1, 0xA2],
       log_Data = [5], log_BlockNumber = 7, log_TxHash = 1, log_TxIndex = 0,
       log_BlockHash = 2, log_Index = 3, log_Removed = False \<rparr>
     of Returns (Some e) \<Rightarrow> event_Protocol e | _ \<Rightarrow> []) = ''tokens-b''
   \<and> (case processLog (RegisterProcessor (RegisterProcessor (NewIndexer mainConfig) (GenericERC20 (NewGenericERC20Processor ''tokens-a'' [0xA]))) (GenericERC20 (NewGenericERC20Processor ''tokens-b'' [0xB]))) [''tokens-b'', ''tokens-a''] ''ethereum''
       \<lparr> log_Address = 0xB,
       log_Topics = [Keccak256Hash ''Transfer(address,address,uint256)'', 0xA1, 0xA2],
       log_Data = [5], log_BlockNumber = 7, log_TxHash = 1, log_TxIndex = 0,
       log_BlockHash = 2, log_Index = 3, log_Removed = False \<rparr>
     of Returns (Some e) \<Rightarrow> event_Protocol e | _ \<Rightarrow> []) = ''tokens-b''
   \<and> range_order (processors (RegisterProcessor (RegisterProcessor (NewIndexer mainConfig) (GenericERC20 (NewGenericERC20Processor ''tokens-a'' [0xB]))) (GenericERC20 (NewGenericERC20Processor ''tokens-b'' [0xB])))) [''tokens-b'', ''tokens-a'']
   \<and> (case processLog (RegisterProcessor (RegisterProcessor (NewIndexer mainConfig) (GenericERC20 (NewGenericERC20Processor ''tokens-a'' [0xB]))) (GenericERC20 (NewGenericERC20Processor ''tokens-b'' [0xB]))) [''tokens-b'', ''tokens-a''] ''ethereum''
       \<lparr> log_Address = 0xB,
       log_Topics = [Keccak256Hash ''Transfer(address,address,uint256)'', 0xA1, 0xA2],
       log_Data = [5], log_BlockNumber = 7, log_TxHash = 1, log_TxIndex = 0,
       log_BlockHash = 2, log_Index = 3, log_Removed = False \<rparr>
     of Returns (Some e) \<Rightarrow> event_Protocol e | _ \<Rightarrow> []) = ''tokens-b''
   \<and> range_order (processors (RegisterProcessor (RegisterProcessor (NewIndexer mainConfig) (GenericERC20 (NewGenericERC20Processor ''tokens-a'' [0xB]))) (GenericERC20 (NewGenericERC20Processor ''tokens-b'' [0xB])))) [''tokens-a'', ''tokens-b'']
   \<and> (case processLog (RegisterProcessor (RegisterProcessor (NewIndexer mainConfig) (GenericERC20 (NewGenericERC20Processor ''tokens-a'' [0xB]))) (GenericERC20 (NewGenericERC20Processor ''tokens-b'' [0xB]))) [''tokens-a'', ''tokens-b''] ''ethereum''
       \<lparr> log_Address = 0xB,
       log_Topics = [Keccak256Hash ''Transfer(address,address,uint256)'', 0xA1, 0xA2],
       log_Data = [5], log_BlockNumber = 7, log_TxHash = 1, log_TxIndex = 0,
       log_BlockHash = 2, log_Index = 3, log_Removed = False \<rparr>
     of Returns (Some e) \<Rightarrow> event_Protocol e | _ \<Rightarrow> []) = ''tokens-a''"
  by (simp add: processLog_def RegisterProcessor_def NewIndexer_def range_values_def range_order_def
      GenericERC20_def NewGenericERC20Processor_def
      GenericERC20_GetEventSignatures_def GenericERC20_Process_def topicAddress_def index_def
      obind_def Let_def insert_commute)

section \<open>Properties of the indexer\<close>






text \<open>Claim C3. For start block 1, head 25, no confirmations and batch size 10 the windows
  are \<open>[1, 10]\<close>, \<open>[11, 20]\<close>, \<open>[21, 25]\<close>, as the claim says. The general part of the claim
  fails: the loop runs while \<open>fromBlock < currentBlock\<close>, so when the last window would hold
  the effective end block alone it is not sent. For head 21 the windows are \<open>[1, 10]\<close> and
  \<open>[11, 20]\<close>, and block 21 is in no window although the start block 1 is below the
  effective end 21. (One worker, as \<open>main.go\<close> configures; every send completes.)\<close>

theorem indexHistoricalEvents_last_block_skipped:
  "indexHistoricalEvents (NewIndexer (mainConfig\<lparr>BlockConfirmations := 0\<rparr>))
      \<lparr> GetBlockNumber = (25, None), GetLogs = (\<lambda>f. ([], None)), IsWebSocketAvailable = False \<rparr>
      16 (\<lambda>k. Sent) 1
     = Some (Returns ([\<lparr>br_from = 1, br_to = 10\<rparr>, \<lparr>br_from = 11, br_to = 20\<rparr>, \<lparr>br_from = 21, br_to = 25\<rparr>], None))
   \<and> indexHistoricalEvents (NewIndexer (mainConfig\<lparr>BlockConfirmations := 0\<rparr>))
      \<lparr> GetBlockNumber = (21, None), GetLogs = (\<lambda>f. ([], None)), IsWebSocketAvailable = False \<rparr>
      16 (\<lambda>k. Sent) 1
     = Some (Returns ([\<lparr>br_from = 1, br_to = 10\<rparr>, \<lparr>br_from = 11, br_to = 20\<rparr>], None))"
  by (simp add: indexHistoricalEvents_def NewIndexer_def mainConfig_def effectiveEnd_def
      sendWork.simps windowEnd_def selectSend_def Let_def)

text \<open>What the loop does guarantee: with a batch size of at least 1, no overflow of the
  block numbers, at least one worker and every send completing, it ends, and the windows it sends tile the blocks from
  the start block through the effective end or through the block before it.\<close>

lemma windowEnd_bounds:
  assumes B: "B \<noteq> 0" and nov: "unat E + unat B < 2 ^ 64" and lt: "from < E"
  shows "unat from \<le> unat (windowEnd B E from)"
    and "unat (windowEnd B E from) \<le> unat E"
    and "unat (windowEnd B E from + 1) = unat (windowEnd B E from) + 1"
    and "unat (windowEnd B E from) = min (unat from + unat B - 1) (unat E)"
proof -
  have fl: "unat from < unat E" using lt by (simp add: word_less_nat_alt)
  have Bp: "0 < unat B" using B by (simp add: unat_gt_0)
  have s1: "unat (from + B) = unat from + unat B"
    using fl nov by (subst unat_add_lem [symmetric]) simp
  have "from + B \<noteq> 0" using s1 Bp by (metis add_is_0 less_numeral_extra(3) unat_0)
  then have s2: "unat (from + B - 1) = unat from + unat B - 1"
    using unat_minus_one [of "from + B"] s1 by simp
  show w: "unat (windowEnd B E from) = min (unat from + unat B - 1) (unat E)"
    by (simp add: windowEnd_def Let_def word_less_nat_alt s2 min_def)
  show "unat from \<le> unat (windowEnd B E from)" using w fl Bp by simp
  show le: "unat (windowEnd B E from) \<le> unat E" using w by simp
  have "unat (windowEnd B E from) + unat (1 :: uint64) < 2 ^ 64" using le nov Bp by simp
  then show "unat (windowEnd B E from + 1) = unat (windowEnd B E from) + 1"
    using unat_add_lem [of "windowEnd B E from" 1] by simp
qed

lemma sendWork_tiles:
  assumes B: "B \<noteq> 0" and nov: "unat E + unat B < 2 ^ 64"
    and W: "0 < W" and nc: "\<forall>k. sel k = Sent"
  shows "\<exists>ws n. sendWork sel W B E from sent = Some (sent @ ws, None)
            \<and> tiles from ws n
            \<and> (from < E \<longrightarrow> n = E \<or> n = E + 1)
            \<and> (\<not> from < E \<longrightarrow> ws = [])"
proof (induction "unat E - unat from" arbitrary: "from" sent rule: less_induct)
  case less
  show ?case
  proof (cases "from < E")
    case False
    then show ?thesis by (subst sendWork.simps) auto
  next
    case True
    let ?to = "windowEnd B E from"
    let ?w = "\<lparr> br_from = from, br_to = ?to \<rparr>"
    note wb = windowEnd_bounds [OF B nov True]
    have fl: "unat from < unat E" using True by (simp add: word_less_nat_alt)
    have "unat E - unat (?to + 1) < unat E - unat from" using wb fl by simp
    from less [OF this, of "sent @ [?w]"]
    obtain ws n where r: "sendWork sel W B E (?to + 1) (sent @ [?w]) = Some ((sent @ [?w]) @ ws, None)"
      and t: "tiles (?to + 1) ws n"
      and n1: "?to + 1 < E \<longrightarrow> n = E \<or> n = E + 1"
      and n2: "\<not> ?to + 1 < E \<longrightarrow> ws = []" by blast
    have step: "sendWork sel W B E from sent = Some (sent @ (?w # ws), None)"
      using True nc W r by (subst sendWork.simps) (simp add: selectSend_def)
    have fle: "from \<le> ?to" using wb(1) by (simp add: word_le_nat_alt)
    have nm: "?to \<noteq> - 1"
    proof
      assume "?to = - 1"
      then have "unat (?to + 1) = 0" by simp
      then show False using wb(3) by simp
    qed
    have tl: "tiles from (?w # ws) n" using t fle nm by simp
    have "n = E \<or> n = E + 1"
    proof (cases "?to + 1 < E")
      case True
      then show ?thesis using n1 by simp
    next
      case False
      then have "ws = []" using n2 by simp
      then have n: "n = ?to + 1" using t by simp
      have "unat E \<le> unat (?to + 1)" using False by (simp add: word_less_nat_alt)
      then have "unat ?to = unat E \<or> unat ?to + 1 = unat E" using wb(2,3) by linarith
      then show ?thesis
      proof
        assume "unat ?to = unat E"
        then have "?to = E" by (simp add: word_unat_eq_iff)
        then show ?thesis using n by simp
      next
        assume "unat ?to + 1 = unat E"
        then have "unat (?to + 1) = unat E" using wb(3) by simp
        then have "?to + 1 = E" by (simp add: word_unat_eq_iff)
        then show ?thesis using n by simp
      qed
    qed
    then show ?thesis using step tl True by blast
  qed
qed

lemma tiles_cover:
  "tiles s ws n \<Longrightarrow> s \<le> b \<Longrightarrow> b < n \<Longrightarrow> \<exists>w \<in> set ws. br_from w \<le> b \<and> b \<le> br_to w"
proof (induction ws arbitrary: s)
  case Nil
  then show ?case by simp
next
  case (Cons w ws)
  show ?case
  proof (cases "b \<le> br_to w")
    case True
    then show ?thesis using Cons.prems by auto
  next
    case False
    then have "br_to w < b" by simp
    then have "br_to w + 1 \<le> b" by (rule inc_le)
    moreover have "tiles (br_to w + 1) ws n" using Cons.prems(1) by simp
    ultimately show ?thesis using Cons.IH Cons.prems(3) by auto
  qed
qed

lemma insertEvents_blocks:
  "pg_indexed_blocks (snd (insertEvents faults now i evs tx)) = pg_indexed_blocks tx"
  by (induction evs arbitrary: i tx) (auto simp: insertEvent_def Let_def)

lemma PostgresStorage_SaveEvents_blocks:
  "pg_indexed_blocks (snd (PostgresStorage_SaveEvents faults now evs db)) = pg_indexed_blocks db"
  using insertEvents_blocks [of faults now 0 evs db]
  by (auto simp: PostgresStorage_SaveEvents_def split: prod.splits option.splits)

lemma PostgresStorage_SaveEvents_checkpoint:
  "PostgresStorage_GetLastIndexedBlock f c (snd (PostgresStorage_SaveEvents faults now evs db))
   = PostgresStorage_GetLastIndexedBlock f c db"
  by (simp add: PostgresStorage_GetLastIndexedBlock_def chainNumbers_def PostgresStorage_SaveEvents_blocks)

section \<open>Properties of the stores\<close>

lemma MemoryStorage_SaveBlock_mono:
  "lastBlocksAt s chain \<le> lastBlocksAt (snd (MemoryStorage_SaveBlock block s)) chain"
  by (auto simp: MemoryStorage_SaveBlock_def lastBlocksAt_def Let_def split: option.splits)

lemma MemoryStorage_SaveBlocks_mono:
  "lastBlocksAt s chain \<le> lastBlocksAt (MemoryStorage_SaveBlocks blocks s) chain"
proof (induction blocks arbitrary: s)
  case Nil
  then show ?case by (simp add: MemoryStorage_SaveBlocks_def)
next
  case (Cons b bs)
  have "lastBlocksAt s chain \<le> lastBlocksAt (snd (MemoryStorage_SaveBlock b s)) chain"
    by (rule MemoryStorage_SaveBlock_mono)
  also have "\<dots> \<le> lastBlocksAt (MemoryStorage_SaveBlocks bs (snd (MemoryStorage_SaveBlock b s))) chain"
    by (rule Cons.IH)
  finally show ?case by (simp add: MemoryStorage_SaveBlocks_def)
qed

lemma take_split: "i \<le> j \<Longrightarrow> take j xs = take i xs @ drop i (take j xs)"
  by (metis append_take_drop_id min.absorb1 take_take)

lemma MemoryStorage_SaveBlocks_append:
  "MemoryStorage_SaveBlocks (xs @ ys) s = MemoryStorage_SaveBlocks ys (MemoryStorage_SaveBlocks xs s)"
  by (simp add: MemoryStorage_SaveBlocks_def)

lemma PostgresStorage_SaveBlocks_append:
  "PostgresStorage_SaveBlocks (xs @ ys) s = PostgresStorage_SaveBlocks ys (PostgresStorage_SaveBlocks xs s)"
  by (simp add: PostgresStorage_SaveBlocks_def)

lemma upsert_numbers:
  "map ib_block_number (filter (\<lambda>r. ib_chain r = chain)
      (map (\<lambda>r. if P r then r\<lparr>ib_indexed_at := t\<rparr> else r) rows))
   = map ib_block_number (filter (\<lambda>r. ib_chain r = chain) rows)"
  by (induction rows) auto

lemma PostgresStorage_SaveBlock_numbers:
  "set (chainNumbers chain db) \<subseteq> set (chainNumbers chain (snd (PostgresStorage_SaveBlock faults block db)))"
proof -
  let ?P = "\<lambda>r. ib_chain r = block_Chain block \<and> ib_block_number r = block_Number block"
  have "chainNumbers chain (db\<lparr> pg_indexed_blocks_seq := q,
           pg_indexed_blocks := map (\<lambda>r. if ?P r then r\<lparr>ib_indexed_at := t\<rparr> else r) (pg_indexed_blocks db) \<rparr>)
        = chainNumbers chain db" for q t
    unfolding chainNumbers_def by (simp add: upsert_numbers)
  moreover have "set (chainNumbers chain db) \<subseteq> set (chainNumbers chain
        (db\<lparr> pg_indexed_blocks_seq := q, pg_indexed_blocks := pg_indexed_blocks db @ [r] \<rparr>))" for q r
    unfolding chainNumbers_def by auto
  ultimately show ?thesis
    unfolding PostgresStorage_SaveBlock_def Let_def by (simp split: if_splits)
qed

lemma PostgresStorage_SaveBlocks_numbers:
  "set (chainNumbers chain db) \<subseteq> set (chainNumbers chain (PostgresStorage_SaveBlocks calls db))"
proof (induction calls arbitrary: db)
  case Nil
  then show ?case by (simp add: PostgresStorage_SaveBlocks_def)
next
  case (Cons c cs)
  obtain f b where c: "c = (f, b)" by (cases c)
  have "set (chainNumbers chain db) \<subseteq> set (chainNumbers chain (snd (PostgresStorage_SaveBlock f b db)))"
    by (rule PostgresStorage_SaveBlock_numbers)
  also have "\<dots> \<subseteq> set (chainNumbers chain (PostgresStorage_SaveBlocks cs (snd (PostgresStorage_SaveBlock f b db))))"
    by (rule Cons.IH)
  finally show ?case by (simp add: PostgresStorage_SaveBlocks_def c)
qed

lemma sint_smax: "sint (smax a b) = max (sint a) (sint b)"
  by (simp add: smax_def word_sle_eq max_def)

lemma foldl_smax_ge: "sint n \<le> sint (foldl smax n ns) \<and> (\<forall>x \<in> set ns. sint x \<le> sint (foldl smax n ns))"
proof (induction ns arbitrary: n)
  case Nil
  then show ?case by simp
next
  case (Cons a ns)
  have "sint n \<le> sint (smax n a)" "sint a \<le> sint (smax n a)"
    by (simp_all add: sint_smax)
  with Cons.IH [of "smax n a"] show ?case by auto
qed

lemma foldl_smax_mem: "foldl smax n ns \<in> set (n # ns)"
  by (induction ns arbitrary: n) (auto simp: smax_def)

lemma nonneg_sint_uint: "0 \<le> sint (a :: uint64) \<Longrightarrow> uint a = sint a"
proof -
  assume a: "0 \<le> sint a"
  have "sint a < 2 ^ 64" using sint_lt [of a] by simp
  then have "take_bit 64 (sint a) = sint a" using a by (simp add: take_bit_int_eq_self)
  then show ?thesis using uint_sint [of a] by simp
qed

lemma nonneg_sint_le: "0 \<le> sint (a :: uint64) \<Longrightarrow> sint a \<le> sint b \<Longrightarrow> a \<le> b"
  using nonneg_sint_uint [of a] nonneg_sint_uint [of b] by (simp add: word_le_def)

lemma GetLast_sub:
  assumes sub: "set (chainNumbers chain db) \<subseteq> set (chainNumbers chain db')"
    and a: "PostgresStorage_GetLastIndexedBlock f1 chain db = (a, None)"
    and b: "PostgresStorage_GetLastIndexedBlock f2 chain db' = (b, None)"
  shows "a \<le> b"
proof (cases "chainNumbers chain db")
  case Nil
  then have "a = 0" using a
    by (simp add: PostgresStorage_GetLastIndexedBlock_def split: if_splits)
  then show ?thesis by simp
next
  case (Cons n ns)
  then have A: "a = foldl smax n ns" "0 \<le> sint a" using a
    by (auto simp add: PostgresStorage_GetLastIndexedBlock_def Let_def split: if_splits)
  have "a \<in> set (chainNumbers chain db)" unfolding Cons A(1) by (rule foldl_smax_mem)
  then have mem: "a \<in> set (chainNumbers chain db')" using sub by auto
  then obtain m ms where C': "chainNumbers chain db' = m # ms" by (cases "chainNumbers chain db'") auto
  then have B: "b = foldl smax m ms" using b
    by (auto simp add: PostgresStorage_GetLastIndexedBlock_def Let_def split: if_splits)
  have "sint a \<le> sint b" using mem foldl_smax_ge [of m ms] unfolding C' B by auto
  with A(2) show ?thesis by (rule nonneg_sint_le)
qed

text \<open>Claim C6. Over any sequence of \<open>SaveBlock\<close> calls, in any order of block numbers,
  the value that \<open>GetLastIndexedBlock\<close> returns for a chain after \<open>i\<close> calls is at most the
  value it returns after \<open>j \<ge> i\<close> calls: in \<open>MemoryStorage\<close>, and in \<open>PostgresStorage\<close>
  whenever both reads succeed, whichever of the writes fail.\<close>

theorem GetLastIndexedBlock_never_decreases:
  assumes "i \<le> j"
  shows "fst (MemoryStorage_GetLastIndexedBlock chain (MemoryStorage_SaveBlocks (take i blocks) s))
           \<le> fst (MemoryStorage_GetLastIndexedBlock chain (MemoryStorage_SaveBlocks (take j blocks) s))
       \<and> (PostgresStorage_GetLastIndexedBlock f1 chain (PostgresStorage_SaveBlocks (take i calls) db) = (a, None)
          \<and> PostgresStorage_GetLastIndexedBlock f2 chain (PostgresStorage_SaveBlocks (take j calls) db) = (b, None)
          \<longrightarrow> a \<le> b)"
proof (intro conjI impI)
  obtain rest where rest: "take j blocks = take i blocks @ rest"
    using take_split [OF assms] by blast
  show "fst (MemoryStorage_GetLastIndexedBlock chain (MemoryStorage_SaveBlocks (take i blocks) s))
           \<le> fst (MemoryStorage_GetLastIndexedBlock chain (MemoryStorage_SaveBlocks (take j blocks) s))"
    unfolding rest MemoryStorage_SaveBlocks_append MemoryStorage_GetLastIndexedBlock_def fst_conv
    by (rule MemoryStorage_SaveBlocks_mono)
next
  assume h: "PostgresStorage_GetLastIndexedBlock f1 chain (PostgresStorage_SaveBlocks (take i calls) db) = (a, None)
          \<and> PostgresStorage_GetLastIndexedBlock f2 chain (PostgresStorage_SaveBlocks (take j calls) db) = (b, None)"
  obtain rest where rest: "take j calls = take i calls @ rest"
    using take_split [OF assms] by blast
  have "set (chainNumbers chain (PostgresStorage_SaveBlocks (take i calls) db))
        \<subseteq> set (chainNumbers chain (PostgresStorage_SaveBlocks (take j calls) db))"
    unfolding rest PostgresStorage_SaveBlocks_append
    by (rule PostgresStorage_SaveBlocks_numbers)
  then show "a \<le> b" using h GetLast_sub by blast
qed

theorem GetLastIndexedBlock_never_decreases_witness:
  "(1 :: nat) \<le> 2
   \<and> fst (MemoryStorage_GetLastIndexedBlock ''ethereum'' (MemoryStorage_SaveBlocks (take 1
       [\<lparr> block_ID = 0, block_Chain = ''ethereum'', block_Number = 20, block_Hash = [], block_Timestamp = 0 \<rparr>,
        \<lparr> block_ID = 0, block_Chain = ''ethereum'', block_Number = 10, block_Hash = [], block_Timestamp = 0 \<rparr>]) NewMemoryStorage)) = 20
   \<and> fst (MemoryStorage_GetLastIndexedBlock ''ethereum'' (MemoryStorage_SaveBlocks (take 2
       [\<lparr> block_ID = 0, block_Chain = ''ethereum'', block_Number = 20, block_Hash = [], block_Timestamp = 0 \<rparr>,
        \<lparr> block_ID = 0, block_Chain = ''ethereum'', block_Number = 10, block_Hash = [], block_Timestamp = 0 \<rparr>]) NewMemoryStorage)) = 20
   \<and> fst (MemoryStorage_GetLastIndexedBlock ''ethereum'' (MemoryStorage_SaveBlocks (take 1
       [\<lparr> block_ID = 0, block_Chain = ''ethereum'', block_Number = 20, block_Hash = [], block_Timestamp = 0 \<rparr>,
        \<lparr> block_ID = 0, block_Chain = ''ethereum'', block_Number = 10, block_Hash = [], block_Timestamp = 0 \<rparr>]) NewMemoryStorage))
     \<le> fst (MemoryStorage_GetLastIndexedBlock ''ethereum'' (MemoryStorage_SaveBlocks (take 2
       [\<lparr> block_ID = 0, block_Chain = ''ethereum'', block_Number = 20, block_Hash = [], block_Timestamp = 0 \<rparr>,
        \<lparr> block_ID = 0, block_Chain = ''ethereum'', block_Number = 10, block_Hash = [], block_Timestamp = 0 \<rparr>]) NewMemoryStorage))
   \<and> PostgresStorage_GetLastIndexedBlock noFaults ''ethereum'' (PostgresStorage_SaveBlocks (take 1
       [(noFaults, \<lparr> block_ID = 0, block_Chain = ''ethereum'', block_Number = 20, block_Hash = [], block_Timestamp = 0 \<rparr>),
        (noFaults, \<lparr> block_ID = 0, block_Chain = ''ethereum'', block_Number = 10, block_Hash = [], block_Timestamp = 0 \<rparr>)]) NewPostgresStorage) = (20, None)
   \<and> PostgresStorage_GetLastIndexedBlock noFaults ''ethereum'' (PostgresStorage_SaveBlocks (take 2
       [(noFaults, \<lparr> block_ID = 0, block_Chain = ''ethereum'', block_Number = 20, block_Hash = [], block_Timestamp = 0 \<rparr>),
        (noFaults, \<lparr> block_ID = 0, block_Chain = ''ethereum'', block_Number = 10, block_Hash = [], block_Timestamp = 0 \<rparr>)]) NewPostgresStorage) = (20, None)
   \<and> (20 :: uint64) \<le> 20"
proof -
  have le: "(1 :: nat) \<le> 2" by simp
  have m: "fst (MemoryStorage_GetLastIndexedBlock ''ethereum'' (MemoryStorage_SaveBlocks (take 1
       [\<lparr> block_ID = 0, block_Chain = ''ethereum'', block_Number = 20, block_Hash = [], block_Timestamp = 0 \<rparr>,
        \<lparr> block_ID = 0, block_Chain = ''ethereum'', block_Number = 10, block_Hash = [], block_Timestamp = 0 \<rparr>]) NewMemoryStorage)) = 20"
     "fst (MemoryStorage_GetLastIndexedBlock ''ethereum'' (MemoryStorage_SaveBlocks (take 2
       [\<lparr> block_ID = 0, block_Chain = ''ethereum'', block_Number = 20, block_Hash = [], block_Timestamp = 0 \<rparr>,
        \<lparr> block_ID = 0, block_Chain = ''ethereum'', block_Number = 10, block_Hash = [], block_Timestamp = 0 \<rparr>]) NewMemoryStorage)) = 20"
    by (simp_all add: MemoryStorage_GetLastIndexedBlock_def MemoryStorage_SaveBlocks_def
        MemoryStorage_SaveBlock_def NewMemoryStorage_def lastBlocksAt_def blocksAt_def Let_def)
  have p: "PostgresStorage_GetLastIndexedBlock noFaults ''ethereum'' (PostgresStorage_SaveBlocks (take 1
       [(noFaults, \<lparr> block_ID = 0, block_Chain = ''ethereum'', block_Number = 20, block_Hash = [], block_Timestamp = 0 \<rparr>),
        (noFaults, \<lparr> block_ID = 0, block_Chain = ''ethereum'', block_Number = 10, block_Hash = [], block_Timestamp = 0 \<rparr>)]) NewPostgresStorage) = (20, None)"
     "PostgresStorage_GetLastIndexedBlock noFaults ''ethereum'' (PostgresStorage_SaveBlocks (take 2
       [(noFaults, \<lparr> block_ID = 0, block_Chain = ''ethereum'', block_Number = 20, block_Hash = [], block_Timestamp = 0 \<rparr>),
        (noFaults, \<lparr> block_ID = 0, block_Chain = ''ethereum'', block_Number = 10, block_Hash = [], block_Timestamp = 0 \<rparr>)]) NewPostgresStorage) = (20, None)"
    by (simp_all add: PostgresStorage_GetLastIndexedBlock_def PostgresStorage_SaveBlocks_def
        PostgresStorage_SaveBlock_def NewPostgresStorage_def noFaults_def chainNumbers_def
        highBit_def smax_def Let_def)
  show ?thesis
    using GetLastIndexedBlock_never_decreases [OF le, where chain = "''ethereum''"
        and blocks = "[\<lparr> block_ID = 0, block_Chain = ''ethereum'', block_Number = 20, block_Hash = [], block_Timestamp = 0 \<rparr>,
        \<lparr> block_ID = 0, block_Chain = ''ethereum'', block_Number = 10, block_Hash = [], block_Timestamp = 0 \<rparr>]" and s = NewMemoryStorage and ?f1.0 = noFaults
        and calls = "[(noFaults, \<lparr> block_ID = 0, block_Chain = ''ethereum'', block_Number = 20, block_Hash = [], block_Timestamp = 0 \<rparr>),
        (noFaults, \<lparr> block_ID = 0, block_Chain = ''ethereum'', block_Number = 10, block_Hash = [], block_Timestamp = 0 \<rparr>)]" and db = NewPostgresStorage and a = 20 and ?f2.0 = noFaults and b = 20]
      m p
    by simp
qed

text \<open>Claim C7 says that saving an event twice leaves the stored events as after saving it
  once. \<open>PostgresStorage.SaveEvents\<close> ignores a row whose key is present, but
  \<open>MemoryStorage.SaveEvents\<close> appends with no test: after one save of the event \<open>e\<close> the
  chain holds \<open>[e]\<close>, after two it holds \<open>[e, e]\<close>, and \<open>GetEvents\<close> returns both copies.\<close>

theorem MemoryStorage_SaveEvents_twice_duplicates:
  "eventsAt (snd (MemoryStorage_SaveEvents [e] NewMemoryStorage)) (event_Chain e) = [e]
   \<and> eventsAt (snd (MemoryStorage_SaveEvents [e] (snd (MemoryStorage_SaveEvents [e] NewMemoryStorage)))) (event_Chain e) = [e, e]
   \<and> fst (MemoryStorage_GetEvents (event_Chain e) (event_BlockNumber e) (event_BlockNumber e)
        (snd (MemoryStorage_SaveEvents [e] (snd (MemoryStorage_SaveEvents [e] NewMemoryStorage))))) = [e, e]"
  by (simp add: MemoryStorage_SaveEvents_def NewMemoryStorage_def eventsAt_def MemoryStorage_GetEvents_def)

text \<open>\<open>PostgresStorage.SaveEvents\<close> does ignore duplicates: after a save that succeeded, a
  second save of the same events leaves the table of events as it is, and no save
  introduces two rows with one key.\<close>

lemma insertEvent_rows:
  "pg_events (insertEvent now e tx) = pg_events tx
   \<or> (\<exists>r. pg_events (insertEvent now e tx) = pg_events tx @ [r] \<and> eventConflict e r
        \<and> \<not> list_ex (eventConflict e) (pg_events tx))"
  by (auto simp: insertEvent_def Let_def eventConflict_def)

lemma insertEvent_present:
  "list_ex (eventConflict e) (pg_events (insertEvent now e tx))"
  by (auto simp: insertEvent_def Let_def eventConflict_def list_ex_iff)

lemma insertEvent_keeps:
  "list_ex P (pg_events tx) \<Longrightarrow> list_ex P (pg_events (insertEvent now e tx))"
  using insertEvent_rows [of now e tx] by (auto simp: list_ex_iff)

lemma insertEvent_noop:
  "list_ex (eventConflict e) (pg_events tx) \<Longrightarrow> pg_events (insertEvent now e tx) = pg_events tx"
  by (simp add: insertEvent_def Let_def)

lemma insertEvents_keeps:
  "list_ex P (pg_events tx) \<Longrightarrow> list_ex P (pg_events (snd (insertEvents faults now i evs tx)))"
  by (induction evs arbitrary: i tx) (auto simp: insertEvent_keeps)

lemma insertEvents_present:
  "insertEvents faults now i evs tx = (None, tx') \<Longrightarrow> e \<in> set evs \<Longrightarrow>
   list_ex (eventConflict e) (pg_events tx')"
proof (induction evs arbitrary: i tx)
  case Nil
  then show ?case by simp
next
  case (Cons a evs)
  from Cons.prems(1) have run: "insertEvents faults now (Suc i) evs (insertEvent now a tx) = (None, tx')"
    by (auto split: if_splits)
  show ?case
  proof (cases "e = a")
    case True
    have "list_ex (eventConflict e) (pg_events (insertEvent now a tx))"
      unfolding True by (rule insertEvent_present)
    then show ?thesis
      using insertEvents_keeps [of "eventConflict e" "insertEvent now a tx" faults now "Suc i" evs] run
      by simp
  next
    case False
    then have "e \<in> set evs" using Cons.prems(2) by simp
    then show ?thesis using Cons.IH [OF run] by simp
  qed
qed

lemma insertEvents_noop:
  "\<forall>e \<in> set evs. list_ex (eventConflict e) (pg_events tx) \<Longrightarrow>
   pg_events (snd (insertEvents faults now i evs tx)) = pg_events tx"
proof (induction evs arbitrary: i tx)
  case Nil
  then show ?case by simp
next
  case (Cons a evs)
  have same: "pg_events (insertEvent now a tx) = pg_events tx"
    using Cons.prems by (simp add: insertEvent_noop)
  then have "\<forall>e \<in> set evs. list_ex (eventConflict e) (pg_events (insertEvent now a tx))"
    using Cons.prems by simp
  from Cons.IH [OF this] same show ?case by auto
qed

lemma PostgresStorage_SaveEvents_idempotent:
  assumes first: "PostgresStorage_SaveEvents f1 t1 evs db = (None, db1)"
  shows "pg_events (snd (PostgresStorage_SaveEvents f2 t2 evs db1)) = pg_events db1"
proof (cases "evs = []")
  case True
  then show ?thesis by (simp add: PostgresStorage_SaveEvents_def)
next
  case False
  from first False have "insertEvents f1 t1 0 evs db = (None, db1)"
    by (auto simp: PostgresStorage_SaveEvents_def split: if_splits prod.splits option.splits)
  then have "\<forall>e \<in> set evs. list_ex (eventConflict e) (pg_events db1)"
    using insertEvents_present by blast
  then have "pg_events (snd (insertEvents f2 t2 0 evs db1)) = pg_events db1"
    by (rule insertEvents_noop)
  then show ?thesis
    by (auto simp: PostgresStorage_SaveEvents_def split: prod.splits option.splits)
qed

lemma eventConflict_rowKey:
  "eventConflict e r \<Longrightarrow> eventConflict e r' \<Longrightarrow> rowKey r = rowKey r'"
  by (simp add: eventConflict_def rowKey_def)

lemma insertEvent_distinct:
  assumes "distinct (map rowKey (pg_events tx))"
  shows "distinct (map rowKey (pg_events (insertEvent now e tx)))"
proof -
  have "rowKey r \<notin> rowKey ` set (pg_events tx)"
    if "eventConflict e r" "\<not> list_ex (eventConflict e) (pg_events tx)" for r
    using that by (auto simp: list_ex_iff eventConflict_def rowKey_def)
  then show ?thesis
    using assms insertEvent_rows [of now e tx] by auto
qed

lemma insertEvents_distinct:
  "distinct (map rowKey (pg_events tx)) \<Longrightarrow>
   distinct (map rowKey (pg_events (snd (insertEvents faults now i evs tx))))"
  by (induction evs arbitrary: i tx) (auto simp: insertEvent_distinct)

lemma PostgresStorage_SaveEvents_distinct:
  assumes "distinct (map rowKey (pg_events db))"
  shows "distinct (map rowKey (pg_events (snd (PostgresStorage_SaveEvents faults now evs db))))"
  using assms insertEvents_distinct [OF assms, of faults now 0 evs]
  by (auto simp: PostgresStorage_SaveEvents_def split: prod.splits option.splits)

section \<open>The order of the storage calls of a batch\<close>

lemma MemoryStorage_SaveEvents_lastBlocks:
  "mem_lastBlocks (snd (MemoryStorage_SaveEvents evs m)) = mem_lastBlocks m"
proof -
  have "mem_lastBlocks (foldl (\<lambda>s event.
              s\<lparr>mem_events := (mem_events s)
                   (event_Chain event \<mapsto> eventsAt s (event_Chain event) @ [event])\<rparr>) m evs)
        = mem_lastBlocks m"
    by (induction evs arbitrary: m) simp_all
  then show ?thesis by (simp add: MemoryStorage_SaveEvents_def)
qed

text \<open>In every run of \<open>processBatch\<close> that returns, a \<open>SaveBlock\<close> call is for the end block
  of the window and is the last call, and a failed \<open>SaveEvents\<close> call is the only call.\<close>

lemma processBatch_calls:
  assumes "processBatch idx storage client orders now chain from to st = Returns (err, st', calls)"
  shows "(CallSaveBlock b \<in> set calls \<longrightarrow> block_Number b = to \<and> block_Chain b = chain)
     \<and> (CallSaveBlock b \<in> set calls \<and> CallSaveEvents evs \<in> set calls \<longrightarrow>
          fst (SaveEvents storage evs st) = None \<and> calls = [CallSaveEvents evs, CallSaveBlock b])
     \<and> (CallSaveEvents evs \<in> set calls \<and> SaveEvents storage evs st = (Some e, s1) \<longrightarrow>
          err = Some (Wrapf ''failed to save events'' e) \<and> st' = s1 \<and> calls = [CallSaveEvents evs])"
  using assms
  by (auto simp: processBatch_def Let_def obind_def
      split: if_splits option.splits prod.splits outcome.splits)

text \<open>Claim C2. Take a window for which some signature is registered, the logs are fetched
  and the loop over the logs decodes the list \<open>events\<close>. When \<open>events\<close> is not empty,
  \<open>processBatch\<close> first calls \<open>SaveEvents\<close> on exactly these events. If that call returns an
  error, \<open>processBatch\<close> returns the error wrapped, \<open>SaveBlock\<close> is not called, and the store
  is left as \<open>SaveEvents\<close> left it. If it returns no error, \<open>SaveBlock\<close> is called next, for
  the end block of the window, on the store that holds the events. When no event was
  decoded there is nothing to save and \<open>SaveBlock\<close> is the only call. On both stores
  \<open>SaveEvents\<close> leaves the checkpoint of every chain as it was (and on \<open>MemoryStorage\<close> it
  never fails), so after a failed \<open>SaveEvents\<close> the checkpoint has not advanced.\<close>

theorem processBatch_checkpoint_after_events:
  assumes sigs: "getAllEventSignatures idx (sigProcessors orders) (sigKeys orders) = signatures"
    and ne: "signatures \<noteq> []"
    and logs: "GetLogs client \<lparr> FromBlock = Some (sint from), ToBlock = Some (sint to),
                 Addresses = [], Topics = [signatures] \<rparr> = (logs, None)"
    and dec: "processLogs idx (logProcessors orders) chain 0 logs [] = Returns events"
    and blk: "block = \<lparr> block_ID = 0, block_Chain = chain, block_Number = to,
                 block_Hash = [], block_Timestamp = now \<rparr>"
  shows "(events \<noteq> [] \<and> SaveEvents storage events st = (Some e, s1) \<longrightarrow>
           processBatch idx storage client orders now chain from to st
             = Returns (Some (Wrapf ''failed to save events'' e), s1, [CallSaveEvents events]))
     \<and> (events \<noteq> [] \<and> SaveEvents storage events st = (None, s1) \<longrightarrow>
           processBatch idx storage client orders now chain from to st
             = Returns (map_option (Wrapf ''failed to save block'') (fst (SaveBlock storage block s1)),
                  snd (SaveBlock storage block s1),
                  [CallSaveEvents events, CallSaveBlock block]))
     \<and> (events = [] \<longrightarrow>
           processBatch idx storage client orders now chain from to st
             = Returns (map_option (Wrapf ''failed to save block'') (fst (SaveBlock storage block st)),
                  snd (SaveBlock storage block st),
                  [CallSaveBlock block]))
     \<and> (PostgresStorage_SaveEvents faults t events db = (r, db1) \<longrightarrow>
           PostgresStorage_GetLastIndexedBlock f c db1 = PostgresStorage_GetLastIndexedBlock f c db)
     \<and> fst (MemoryStorage_SaveEvents events m) = None
     \<and> MemoryStorage_GetLastIndexedBlock c (snd (MemoryStorage_SaveEvents events m))
           = MemoryStorage_GetLastIndexedBlock c m"
proof (intro conjI impI)
  assume "events \<noteq> [] \<and> SaveEvents storage events st = (Some e, s1)"
  then show "processBatch idx storage client orders now chain from to st
             = Returns (Some (Wrapf ''failed to save events'' e), s1, [CallSaveEvents events])"
    using sigs ne logs dec by (simp add: processBatch_def Let_def obind_def)
next
  assume "events \<noteq> [] \<and> SaveEvents storage events st = (None, s1)"
  then show "processBatch idx storage client orders now chain from to st
             = Returns (map_option (Wrapf ''failed to save block'') (fst (SaveBlock storage block s1)),
                  snd (SaveBlock storage block s1),
                  [CallSaveEvents events, CallSaveBlock block])"
    using sigs ne logs dec blk
    by (simp add: processBatch_def Let_def obind_def split: prod.splits option.splits)
next
  assume "events = []"
  then show "processBatch idx storage client orders now chain from to st
             = Returns (map_option (Wrapf ''failed to save block'') (fst (SaveBlock storage block st)),
                  snd (SaveBlock storage block st),
                  [CallSaveBlock block])"
    using sigs ne logs dec blk
    by (simp add: processBatch_def Let_def obind_def split: prod.splits option.splits)
next
  assume "PostgresStorage_SaveEvents faults t events db = (r, db1)"
  then show "PostgresStorage_GetLastIndexedBlock f c db1 = PostgresStorage_GetLastIndexedBlock f c db"
    using PostgresStorage_SaveEvents_checkpoint [of f c faults t events db] by simp
next
  show "fst (MemoryStorage_SaveEvents events m) = None"
    by (simp add: MemoryStorage_SaveEvents_def)
next
  show "MemoryStorage_GetLastIndexedBlock c (snd (MemoryStorage_SaveEvents events m))
           = MemoryStorage_GetLastIndexedBlock c m"
    by (simp add: MemoryStorage_GetLastIndexedBlock_def lastBlocksAt_def
        MemoryStorage_SaveEvents_lastBlocks)
qed

theorem processBatch_checkpoint_after_events_witness:
  "processBatch (RegisterProcessor (NewIndexer mainConfig) (GenericERC20 (NewGenericERC20Processor ''tokens'' [0xB])))
      (PostgresStorage_Storage (noFaults\<lparr>commitFails := True\<rparr>) 0)
      \<lparr> GetBlockNumber = (100, None), GetLogs = (\<lambda>f. ([\<lparr> log_Address = 0xB,
       log_Topics = [Keccak256Hash ''Transfer(address,address,uint256)'', 0xA1, 0xA2],
       log_Data = [5], log_BlockNumber = 7, log_TxHash = 1, log_TxIndex = 0,
       log_BlockHash = 2, log_Index = 3, log_Removed = False \<rparr>], None)), IsWebSocketAvailable = False \<rparr>
      \<lparr> sigProcessors = [''tokens''], sigKeys = [Keccak256Hash ''Transfer(address,address,uint256)''], logProcessors = (\<lambda>i. [''tokens'']) \<rparr>
      0 ''ethereum'' 1 10 NewPostgresStorage
     = Returns (Some (Wrapf ''failed to save events'' (Errorf ''pq: commit failed'')),
        NewPostgresStorage\<lparr>pg_events_seq := 1\<rparr>,
        [CallSaveEvents [\<lparr> event_ID = 0, event_Chain = ''ethereum'',
         event_BlockNumber = 7, event_BlockHash = Hash_Hex 2, event_TransactionHash = Hash_Hex 1,
         event_LogIndex = 3, event_Address = 0xB, event_EventName = ''Transfer'',
         event_Protocol = ''tokens'',
         event_Data = map_of
           [ (''from'', AddressValue (BytesToAddress (Hash_Bytes 0xA1))),
             (''to'', AddressValue (BytesToAddress (Hash_Bytes 0xA2))),
             (''amount'', StringValue (BigInt_String (SetBytes [5]))),
             (''token'', HexValue 0xB) ],
         event_Timestamp = 0 \<rparr>]])
   \<and> PostgresStorage_GetLastIndexedBlock noFaults ''ethereum'' (NewPostgresStorage\<lparr>pg_events_seq := 1\<rparr>)
     = PostgresStorage_GetLastIndexedBlock noFaults ''ethereum'' NewPostgresStorage
   \<and> processBatch (RegisterProcessor (NewIndexer mainConfig) (GenericERC20 (NewGenericERC20Processor ''tokens'' [0xB])))
      (PostgresStorage_Storage noFaults 0)
      \<lparr> GetBlockNumber = (100, None), GetLogs = (\<lambda>f. ([\<lparr> log_Address = 0xB,
       log_Topics = [Keccak256Hash ''Transfer(address,address,uint256)'', 0xA1, 0xA2],
       log_Data = [5], log_BlockNumber = 7, log_TxHash = 1, log_TxIndex = 0,
       log_BlockHash = 2, log_Index = 3, log_Removed = False \<rparr>], None)), IsWebSocketAvailable = False \<rparr>
      \<lparr> sigProcessors = [''tokens''], sigKeys = [Keccak256Hash ''Transfer(address,address,uint256)''], logProcessors = (\<lambda>i. [''tokens'']) \<rparr>
      0 ''ethereum'' 1 10 NewPostgresStorage
     = Returns (None,
        snd (PostgresStorage_SaveBlock noFaults
          \<lparr> block_ID = 0, block_Chain = ''ethereum'', block_Number = 10, block_Hash = [], block_Timestamp = 0 \<rparr>
          (snd (PostgresStorage_SaveEvents noFaults 0
            [\<lparr> event_ID = 0, event_Chain = ''ethereum'',
         event_BlockNumber = 7, event_BlockHash = Hash_Hex 2, event_TransactionHash = Hash_Hex 1,
         event_LogIndex = 3, event_Address = 0xB, event_EventName = ''Transfer'',
         event_Protocol = ''tokens'',
         event_Data = map_of
           [ (''from'', AddressValue (BytesToAddress (Hash_Bytes 0xA1))),
             (''to'', AddressValue (BytesToAddress (Hash_Bytes 0xA2))),
             (''amount'', StringValue (BigInt_String (SetBytes [5]))),
             (''token'', HexValue 0xB) ],
         event_Timestamp = 0 \<rparr>] NewPostgresStorage))),
        [CallSaveEvents [\<lparr> event_ID = 0, event_Chain = ''ethereum'',
         event_BlockNumber = 7, event_BlockHash = Hash_Hex 2, event_TransactionHash = Hash_Hex 1,
         event_LogIndex = 3, event_Address = 0xB, event_EventName = ''Transfer'',
         event_Protocol = ''tokens'',
         event_Data = map_of
           [ (''from'', AddressValue (BytesToAddress (Hash_Bytes 0xA1))),
             (''to'', AddressValue (BytesToAddress (Hash_Bytes 0xA2))),
             (''amount'', StringValue (BigInt_String (SetBytes [5]))),
             (''token'', HexValue 0xB) ],
         event_Timestamp = 0 \<rparr>],
         CallSaveBlock \<lparr> block_ID = 0, block_Chain = ''ethereum'', block_Number = 10, block_Hash = [], block_Timestamp = 0 \<rparr>])
   \<and> processBatch (RegisterProcessor (NewIndexer mainConfig) (GenericERC20 (NewGenericERC20Processor ''tokens'' [0xB])))
      MemoryStorage_Storage
      \<lparr> GetBlockNumber = (100, None), GetLogs = (\<lambda>f. ([], None)), IsWebSocketAvailable = False \<rparr>
      \<lparr> sigProcessors = [''tokens''], sigKeys = [Keccak256Hash ''Transfer(address,address,uint256)''], logProcessors = (\<lambda>i. [''tokens'']) \<rparr>
      0 ''ethereum'' 1 10 NewMemoryStorage
     = Returns (None,
        snd (MemoryStorage_SaveBlock
          \<lparr> block_ID = 0, block_Chain = ''ethereum'', block_Number = 10, block_Hash = [], block_Timestamp = 0 \<rparr> NewMemoryStorage),
        [CallSaveBlock \<lparr> block_ID = 0, block_Chain = ''ethereum'', block_Number = 10, block_Hash = [], block_Timestamp = 0 \<rparr>])
   \<and> MemoryStorage_GetLastIndexedBlock ''ethereum'' (snd (MemoryStorage_SaveEvents
       [\<lparr> event_ID = 0, event_Chain = ''ethereum'',
         event_BlockNumber = 7, event_BlockHash = Hash_Hex 2, event_TransactionHash = Hash_Hex 1,
         event_LogIndex = 3, event_Address = 0xB, event_EventName = ''Transfer'',
         event_Protocol = ''tokens'',
         event_Data = map_of
           [ (''from'', AddressValue (BytesToAddress (Hash_Bytes 0xA1))),
             (''to'', AddressValue (BytesToAddress (Hash_Bytes 0xA2))),
             (''amount'', StringValue (BigInt_String (SetBytes [5]))),
             (''token'', HexValue 0xB) ],
         event_Timestamp = 0 \<rparr>] NewMemoryStorage))
     = MemoryStorage_GetLastIndexedBlock ''ethereum'' NewMemoryStorage"
proof -
  have sg: "getAllEventSignatures (RegisterProcessor (NewIndexer mainConfig) (GenericERC20 (NewGenericERC20Processor ''tokens'' [0xB])))
       (sigProcessors \<lparr> sigProcessors = [''tokens''], sigKeys = [Keccak256Hash ''Transfer(address,address,uint256)''], logProcessors = (\<lambda>i. [''tokens'']) \<rparr>)
       (sigKeys \<lparr> sigProcessors = [''tokens''], sigKeys = [Keccak256Hash ''Transfer(address,address,uint256)''], logProcessors = (\<lambda>i. [''tokens'']) \<rparr>) = [Keccak256Hash ''Transfer(address,address,uint256)'']"
    by (auto simp add: getAllEventSignatures_def RegisterProcessor_def NewIndexer_def range_values_def
        range_keys_def GenericERC20_def GenericERC20_GetEventSignatures_def
        NewGenericERC20Processor_def Let_def)
  have ne: "[Keccak256Hash ''Transfer(address,address,uint256)''] \<noteq> []"
    by simp
  have lg1: "GetLogs \<lparr> GetBlockNumber = (100, None), GetLogs = (\<lambda>f. ([\<lparr> log_Address = 0xB,
       log_Topics = [Keccak256Hash ''Transfer(address,address,uint256)'', 0xA1, 0xA2],
       log_Data = [5], log_BlockNumber = 7, log_TxHash = 1, log_TxIndex = 0,
       log_BlockHash = 2, log_Index = 3, log_Removed = False \<rparr>], None)), IsWebSocketAvailable = False \<rparr>
         \<lparr> FromBlock = Some (sint (1 :: uint64)), ToBlock = Some (sint (10 :: uint64)),
           Addresses = [], Topics = [[Keccak256Hash ''Transfer(address,address,uint256)'']] \<rparr>
       = ([\<lparr> log_Address = 0xB,
       log_Topics = [Keccak256Hash ''Transfer(address,address,uint256)'', 0xA1, 0xA2],
       log_Data = [5], log_BlockNumber = 7, log_TxHash = 1, log_TxIndex = 0,
       log_BlockHash = 2, log_Index = 3, log_Removed = False \<rparr>], None)"
    by simp
  have lg0: "GetLogs \<lparr> GetBlockNumber = (100, None), GetLogs = (\<lambda>f. ([], None)), IsWebSocketAvailable = False \<rparr>
         \<lparr> FromBlock = Some (sint (1 :: uint64)), ToBlock = Some (sint (10 :: uint64)),
           Addresses = [], Topics = [[Keccak256Hash ''Transfer(address,address,uint256)'']] \<rparr>
       = ([], None)"
    by simp
  have pl: "processLog (RegisterProcessor (NewIndexer mainConfig) (GenericERC20 (NewGenericERC20Processor ''tokens'' [0xB]))) [''tokens''] ''ethereum''
       \<lparr> log_Address = 0xB,
       log_Topics = [Keccak256Hash ''Transfer(address,address,uint256)'', 0xA1, 0xA2],
       log_Data = [5], log_BlockNumber = 7, log_TxHash = 1, log_TxIndex = 0,
       log_BlockHash = 2, log_Index = 3, log_Removed = False \<rparr>
     = Returns (Some \<lparr> event_ID = 0, event_Chain = ''ethereum'',
         event_BlockNumber = 7, event_BlockHash = Hash_Hex 2, event_TransactionHash = Hash_Hex 1,
         event_LogIndex = 3, event_Address = 0xB, event_EventName = ''Transfer'',
         event_Protocol = ''tokens'',
         event_Data = map_of
           [ (''from'', AddressValue (BytesToAddress (Hash_Bytes 0xA1))),
             (''to'', AddressValue (BytesToAddress (Hash_Bytes 0xA2))),
             (''amount'', StringValue (BigInt_String (SetBytes [5]))),
             (''token'', HexValue 0xB) ],
         event_Timestamp = 0 \<rparr>)"
    by (simp add: processLog_def RegisterProcessor_def NewIndexer_def range_values_def
        GenericERC20_def NewGenericERC20Processor_def
        GenericERC20_GetEventSignatures_def GenericERC20_Process_def topicAddress_def index_def
        obind_def Let_def)
  have dec1: "processLogs (RegisterProcessor (NewIndexer mainConfig) (GenericERC20 (NewGenericERC20Processor ''tokens'' [0xB])))
       (logProcessors \<lparr> sigProcessors = [''tokens''], sigKeys = [Keccak256Hash ''Transfer(address,address,uint256)''], logProcessors = (\<lambda>i. [''tokens'']) \<rparr>) ''ethereum'' 0
       [\<lparr> log_Address = 0xB,
       log_Topics = [Keccak256Hash ''Transfer(address,address,uint256)'', 0xA1, 0xA2],
       log_Data = [5], log_BlockNumber = 7, log_TxHash = 1, log_TxIndex = 0,
       log_BlockHash = 2, log_Index = 3, log_Removed = False \<rparr>] []
     = Returns [\<lparr> event_ID = 0, event_Chain = ''ethereum'',
         event_BlockNumber = 7, event_BlockHash = Hash_Hex 2, event_TransactionHash = Hash_Hex 1,
         event_LogIndex = 3, event_Address = 0xB, event_EventName = ''Transfer'',
         event_Protocol = ''tokens'',
         event_Data = map_of
           [ (''from'', AddressValue (BytesToAddress (Hash_Bytes 0xA1))),
             (''to'', AddressValue (BytesToAddress (Hash_Bytes 0xA2))),
             (''amount'', StringValue (BigInt_String (SetBytes [5]))),
             (''token'', HexValue 0xB) ],
         event_Timestamp = 0 \<rparr>]"
    by (simp add: pl obind_def)
  have dec0: "processLogs (RegisterProcessor (NewIndexer mainConfig) (GenericERC20 (NewGenericERC20Processor ''tokens'' [0xB])))
       (logProcessors \<lparr> sigProcessors = [''tokens''], sigKeys = [Keccak256Hash ''Transfer(address,address,uint256)''], logProcessors = (\<lambda>i. [''tokens'']) \<rparr>) ''ethereum'' 0 [] []
     = Returns []"
    by simp
  have blk: "\<lparr> block_ID = 0, block_Chain = ''ethereum'', block_Number = 10, block_Hash = [], block_Timestamp = 0 \<rparr>
     = \<lparr> block_ID = 0, block_Chain = ''ethereum'', block_Number = 10, block_Hash = [], block_Timestamp = 0 \<rparr>"
    by simp
  have sef: "SaveEvents (PostgresStorage_Storage (noFaults\<lparr>commitFails := True\<rparr>) 0)
       [\<lparr> event_ID = 0, event_Chain = ''ethereum'',
         event_BlockNumber = 7, event_BlockHash = Hash_Hex 2, event_TransactionHash = Hash_Hex 1,
         event_LogIndex = 3, event_Address = 0xB, event_EventName = ''Transfer'',
         event_Protocol = ''tokens'',
         event_Data = map_of
           [ (''from'', AddressValue (BytesToAddress (Hash_Bytes 0xA1))),
             (''to'', AddressValue (BytesToAddress (Hash_Bytes 0xA2))),
             (''amount'', StringValue (BigInt_String (SetBytes [5]))),
             (''token'', HexValue 0xB) ],
         event_Timestamp = 0 \<rparr>] NewPostgresStorage
     = (Some (Errorf ''pq: commit failed''), NewPostgresStorage\<lparr>pg_events_seq := 1\<rparr>)"
    by (simp add: PostgresStorage_Storage_def PostgresStorage_SaveEvents_def noFaults_def
        NewPostgresStorage_def highBit_def fitsInt_def insertEvent_def eventConflict_def Let_def)
  have se0: "SaveEvents (PostgresStorage_Storage noFaults 0)
       [\<lparr> event_ID = 0, event_Chain = ''ethereum'',
         event_BlockNumber = 7, event_BlockHash = Hash_Hex 2, event_TransactionHash = Hash_Hex 1,
         event_LogIndex = 3, event_Address = 0xB, event_EventName = ''Transfer'',
         event_Protocol = ''tokens'',
         event_Data = map_of
           [ (''from'', AddressValue (BytesToAddress (Hash_Bytes 0xA1))),
             (''to'', AddressValue (BytesToAddress (Hash_Bytes 0xA2))),
             (''amount'', StringValue (BigInt_String (SetBytes [5]))),
             (''token'', HexValue 0xB) ],
         event_Timestamp = 0 \<rparr>] NewPostgresStorage
     = (None, (snd (PostgresStorage_SaveEvents noFaults 0
            [\<lparr> event_ID = 0, event_Chain = ''ethereum'',
         event_BlockNumber = 7, event_BlockHash = Hash_Hex 2, event_TransactionHash = Hash_Hex 1,
         event_LogIndex = 3, event_Address = 0xB, event_EventName = ''Transfer'',
         event_Protocol = ''tokens'',
         event_Data = map_of
           [ (''from'', AddressValue (BytesToAddress (Hash_Bytes 0xA1))),
             (''to'', AddressValue (BytesToAddress (Hash_Bytes 0xA2))),
             (''amount'', StringValue (BigInt_String (SetBytes [5]))),
             (''token'', HexValue 0xB) ],
         event_Timestamp = 0 \<rparr>] NewPostgresStorage)))"
    by (simp add: PostgresStorage_Storage_def PostgresStorage_SaveEvents_def noFaults_def
        NewPostgresStorage_def highBit_def fitsInt_def insertEvent_def eventConflict_def Let_def)
  have sb0: "fst (SaveBlock (PostgresStorage_Storage noFaults 0)
       \<lparr> block_ID = 0, block_Chain = ''ethereum'', block_Number = 10, block_Hash = [], block_Timestamp = 0 \<rparr>
       (snd (PostgresStorage_SaveEvents noFaults 0
            [\<lparr> event_ID = 0, event_Chain = ''ethereum'',
         event_BlockNumber = 7, event_BlockHash = Hash_Hex 2, event_TransactionHash = Hash_Hex 1,
         event_LogIndex = 3, event_Address = 0xB, event_EventName = ''Transfer'',
         event_Protocol = ''tokens'',
         event_Data = map_of
           [ (''from'', AddressValue (BytesToAddress (Hash_Bytes 0xA1))),
             (''to'', AddressValue (BytesToAddress (Hash_Bytes 0xA2))),
             (''amount'', StringValue (BigInt_String (SetBytes [5]))),
             (''token'', HexValue 0xB) ],
         event_Timestamp = 0 \<rparr>] NewPostgresStorage))) = None"
    by (simp add: PostgresStorage_Storage_def PostgresStorage_SaveBlock_def noFaults_def highBit_def
        Let_def)
  have sbm: "fst (SaveBlock MemoryStorage_Storage
       \<lparr> block_ID = 0, block_Chain = ''ethereum'', block_Number = 10, block_Hash = [], block_Timestamp = 0 \<rparr> NewMemoryStorage) = None"
    by (simp add: MemoryStorage_Storage_def MemoryStorage_SaveBlock_def Let_def)
  have nonempty: "[\<lparr> event_ID = 0, event_Chain = ''ethereum'',
         event_BlockNumber = 7, event_BlockHash = Hash_Hex 2, event_TransactionHash = Hash_Hex 1,
         event_LogIndex = 3, event_Address = 0xB, event_EventName = ''Transfer'',
         event_Protocol = ''tokens'',
         event_Data = map_of
           [ (''from'', AddressValue (BytesToAddress (Hash_Bytes 0xA1))),
             (''to'', AddressValue (BytesToAddress (Hash_Bytes 0xA2))),
             (''amount'', StringValue (BigInt_String (SetBytes [5]))),
             (''token'', HexValue 0xB) ],
         event_Timestamp = 0 \<rparr>] \<noteq> []"
    by simp
  note with_events = processBatch_checkpoint_after_events [OF sg ne lg1 dec1 blk]
  note no_events = processBatch_checkpoint_after_events [OF sg ne lg0 dec0 blk]
  have sef': "PostgresStorage_SaveEvents (noFaults\<lparr>commitFails := True\<rparr>) 0
       [\<lparr> event_ID = 0, event_Chain = ''ethereum'',
         event_BlockNumber = 7, event_BlockHash = Hash_Hex 2, event_TransactionHash = Hash_Hex 1,
         event_LogIndex = 3, event_Address = 0xB, event_EventName = ''Transfer'',
         event_Protocol = ''tokens'',
         event_Data = map_of
           [ (''from'', AddressValue (BytesToAddress (Hash_Bytes 0xA1))),
             (''to'', AddressValue (BytesToAddress (Hash_Bytes 0xA2))),
             (''amount'', StringValue (BigInt_String (SetBytes [5]))),
             (''token'', HexValue 0xB) ],
         event_Timestamp = 0 \<rparr>] NewPostgresStorage
     = (Some (Errorf ''pq: commit failed''), NewPostgresStorage\<lparr>pg_events_seq := 1\<rparr>)"
    using sef by (simp add: PostgresStorage_Storage_def)
  have r1: "processBatch (RegisterProcessor (NewIndexer mainConfig) (GenericERC20 (NewGenericERC20Processor ''tokens'' [0xB])))
      (PostgresStorage_Storage (noFaults\<lparr>commitFails := True\<rparr>) 0)
      \<lparr> GetBlockNumber = (100, None), GetLogs = (\<lambda>f. ([\<lparr> log_Address = 0xB,
       log_Topics = [Keccak256Hash ''Transfer(address,address,uint256)'', 0xA1, 0xA2],
       log_Data = [5], log_BlockNumber = 7, log_TxHash = 1, log_TxIndex = 0,
       log_BlockHash = 2, log_Index = 3, log_Removed = False \<rparr>], None)), IsWebSocketAvailable = False \<rparr>
      \<lparr> sigProcessors = [''tokens''], sigKeys = [Keccak256Hash ''Transfer(address,address,uint256)''], logProcessors = (\<lambda>i. [''tokens'']) \<rparr>
      0 ''ethereum'' 1 10 NewPostgresStorage
     = Returns (Some (Wrapf ''failed to save events'' (Errorf ''pq: commit failed'')),
        NewPostgresStorage\<lparr>pg_events_seq := 1\<rparr>,
        [CallSaveEvents [\<lparr> event_ID = 0, event_Chain = ''ethereum'',
         event_BlockNumber = 7, event_BlockHash = Hash_Hex 2, event_TransactionHash = Hash_Hex 1,
         event_LogIndex = 3, event_Address = 0xB, event_EventName = ''Transfer'',
         event_Protocol = ''tokens'',
         event_Data = map_of
           [ (''from'', AddressValue (BytesToAddress (Hash_Bytes 0xA1))),
             (''to'', AddressValue (BytesToAddress (Hash_Bytes 0xA2))),
             (''amount'', StringValue (BigInt_String (SetBytes [5]))),
             (''token'', HexValue 0xB) ],
         event_Timestamp = 0 \<rparr>]])"
    by (rule with_events [where storage = "(PostgresStorage_Storage (noFaults\<lparr>commitFails := True\<rparr>) 0)" and st = NewPostgresStorage
          and e = "Errorf ''pq: commit failed''" and ?s1.0 = "NewPostgresStorage\<lparr>pg_events_seq := 1\<rparr>",
          THEN conjunct1, THEN mp, OF conjI [OF nonempty sef]])
  have gl: "PostgresStorage_GetLastIndexedBlock noFaults ''ethereum'' (NewPostgresStorage\<lparr>pg_events_seq := 1\<rparr>)
     = PostgresStorage_GetLastIndexedBlock noFaults ''ethereum'' NewPostgresStorage"
    by (rule with_events [where faults = "noFaults\<lparr>commitFails := True\<rparr>" and t = 0 and db = NewPostgresStorage
          and r = "Some (Errorf ''pq: commit failed'')" and ?db1.0 = "NewPostgresStorage\<lparr>pg_events_seq := 1\<rparr>"
          and f = noFaults and c = "''ethereum''",
          THEN conjunct2, THEN conjunct2, THEN conjunct2, THEN conjunct1, THEN mp, OF sef'])
  have r2: "processBatch (RegisterProcessor (NewIndexer mainConfig) (GenericERC20 (NewGenericERC20Processor ''tokens'' [0xB])))
      (PostgresStorage_Storage noFaults 0)
      \<lparr> GetBlockNumber = (100, None), GetLogs = (\<lambda>f. ([\<lparr> log_Address = 0xB,
       log_Topics = [Keccak256Hash ''Transfer(address,address,uint256)'', 0xA1, 0xA2],
       log_Data = [5], log_BlockNumber = 7, log_TxHash = 1, log_TxIndex = 0,
       log_BlockHash = 2, log_Index = 3, log_Removed = False \<rparr>], None)), IsWebSocketAvailable = False \<rparr>
      \<lparr> sigProcessors = [''tokens''], sigKeys = [Keccak256Hash ''Transfer(address,address,uint256)''], logProcessors = (\<lambda>i. [''tokens'']) \<rparr>
      0 ''ethereum'' 1 10 NewPostgresStorage
     = Returns (None,
        snd (PostgresStorage_SaveBlock noFaults
          \<lparr> block_ID = 0, block_Chain = ''ethereum'', block_Number = 10, block_Hash = [], block_Timestamp = 0 \<rparr>
          (snd (PostgresStorage_SaveEvents noFaults 0
            [\<lparr> event_ID = 0, event_Chain = ''ethereum'',
         event_BlockNumber = 7, event_BlockHash = Hash_Hex 2, event_TransactionHash = Hash_Hex 1,
         event_LogIndex = 3, event_Address = 0xB, event_EventName = ''Transfer'',
         event_Protocol = ''tokens'',
         event_Data = map_of
           [ (''from'', AddressValue (BytesToAddress (Hash_Bytes 0xA1))),
             (''to'', AddressValue (BytesToAddress (Hash_Bytes 0xA2))),
             (''amount'', StringValue (BigInt_String (SetBytes [5]))),
             (''token'', HexValue 0xB) ],
         event_Timestamp = 0 \<rparr>] NewPostgresStorage))),
        [CallSaveEvents [\<lparr> event_ID = 0, event_Chain = ''ethereum'',
         event_BlockNumber = 7, event_BlockHash = Hash_Hex 2, event_TransactionHash = Hash_Hex 1,
         event_LogIndex = 3, event_Address = 0xB, event_EventName = ''Transfer'',
         event_Protocol = ''tokens'',
         event_Data = map_of
           [ (''from'', AddressValue (BytesToAddress (Hash_Bytes 0xA1))),
             (''to'', AddressValue (BytesToAddress (Hash_Bytes 0xA2))),
             (''amount'', StringValue (BigInt_String (SetBytes [5]))),
             (''token'', HexValue 0xB) ],
         event_Timestamp = 0 \<rparr>],
         CallSaveBlock \<lparr> block_ID = 0, block_Chain = ''ethereum'', block_Number = 10, block_Hash = [], block_Timestamp = 0 \<rparr>])"
    using with_events [where storage = "(PostgresStorage_Storage noFaults 0)" and st = NewPostgresStorage
          and ?s1.0 = "(snd (PostgresStorage_SaveEvents noFaults 0
            [\<lparr> event_ID = 0, event_Chain = ''ethereum'',
         event_BlockNumber = 7, event_BlockHash = Hash_Hex 2, event_TransactionHash = Hash_Hex 1,
         event_LogIndex = 3, event_Address = 0xB, event_EventName = ''Transfer'',
         event_Protocol = ''tokens'',
         event_Data = map_of
           [ (''from'', AddressValue (BytesToAddress (Hash_Bytes 0xA1))),
             (''to'', AddressValue (BytesToAddress (Hash_Bytes 0xA2))),
             (''amount'', StringValue (BigInt_String (SetBytes [5]))),
             (''token'', HexValue 0xB) ],
         event_Timestamp = 0 \<rparr>] NewPostgresStorage))",
          THEN conjunct2, THEN conjunct1, THEN mp, OF conjI [OF nonempty se0]] sb0
    by (simp add: PostgresStorage_Storage_def)
  have r3: "processBatch (RegisterProcessor (NewIndexer mainConfig) (GenericERC20 (NewGenericERC20Processor ''tokens'' [0xB])))
      MemoryStorage_Storage
      \<lparr> GetBlockNumber = (100, None), GetLogs = (\<lambda>f. ([], None)), IsWebSocketAvailable = False \<rparr>
      \<lparr> sigProcessors = [''tokens''], sigKeys = [Keccak256Hash ''Transfer(address,address,uint256)''], logProcessors = (\<lambda>i. [''tokens'']) \<rparr>
      0 ''ethereum'' 1 10 NewMemoryStorage
     = Returns (None,
        snd (MemoryStorage_SaveBlock
          \<lparr> block_ID = 0, block_Chain = ''ethereum'', block_Number = 10, block_Hash = [], block_Timestamp = 0 \<rparr> NewMemoryStorage),
        [CallSaveBlock \<lparr> block_ID = 0, block_Chain = ''ethereum'', block_Number = 10, block_Hash = [], block_Timestamp = 0 \<rparr>])"
    using no_events [where storage = MemoryStorage_Storage and st = NewMemoryStorage,
          THEN conjunct2, THEN conjunct2, THEN conjunct1, THEN mp, OF refl] sbm
    by (simp add: MemoryStorage_Storage_def)
  have mg: "MemoryStorage_GetLastIndexedBlock ''ethereum'' (snd (MemoryStorage_SaveEvents
       [\<lparr> event_ID = 0, event_Chain = ''ethereum'',
         event_BlockNumber = 7, event_BlockHash = Hash_Hex 2, event_TransactionHash = Hash_Hex 1,
         event_LogIndex = 3, event_Address = 0xB, event_EventName = ''Transfer'',
         event_Protocol = ''tokens'',
         event_Data = map_of
           [ (''from'', AddressValue (BytesToAddress (Hash_Bytes 0xA1))),
             (''to'', AddressValue (BytesToAddress (Hash_Bytes 0xA2))),
             (''amount'', StringValue (BigInt_String (SetBytes [5]))),
             (''token'', HexValue 0xB) ],
         event_Timestamp = 0 \<rparr>] NewMemoryStorage))
     = MemoryStorage_GetLastIndexedBlock ''ethereum'' NewMemoryStorage"
    by (rule with_events [where m = NewMemoryStorage and c = "''ethereum''",
          THEN conjunct2, THEN conjunct2, THEN conjunct2, THEN conjunct2, THEN conjunct2])
  show ?thesis
    using r1 gl r2 r3 mg by blast
qed

end
